theory Spec2Isabelle
  imports Complex_Main
begin

section \<open>Data model\<close>

text \<open>
  The functions of \<^verbatim>\<open>Funcoes.py\<close> work on numpy arrays of floating-point numbers. The
  embedding idealises a float as a real and a complex float as a complex number; signed
  zeros, infinities and NaN have no counterpart here. A one-dimensional array is a list, a
  two-dimensional array a list of rows.

  A signal object is a two-dimensional complex array (one row per mode) that carries its
  sample rate \<^verbatim>\<open>fs\<close> and symbol rate \<^verbatim>\<open>fb\<close> as attributes.
\<close>

record signal =
  samples :: "complex list list"
  fs :: real
  fb :: real

text \<open>
  The dictionary built by \<^verbatim>\<open>abs_and_phases\<close> has the two keys \<^verbatim>\<open>'amplitudes'\<close> and
  \<^verbatim>\<open>'phases'\<close> at every point of the program, so it is a record of two fields.
\<close>

record data =
  amplitudes :: "real list"
  phases :: "real list"

text \<open>The exceptions that numpy and Python raise on the paths modelled here.\<close>

datatype error = ValueError | IndexError

section \<open>numpy primitives\<close>

text \<open>
  A Python slice \<^verbatim>\<open>xs[i:j]\<close>: a negative bound counts from the end, and both bounds are
  clamped to the length, so a slice never raises and may be shorter than \<^verbatim>\<open>j - i\<close>.
\<close>

definition slice_index :: "nat \<Rightarrow> int \<Rightarrow> nat" where
  "slice_index len k = (if k < 0 then nat (max 0 (int len + k)) else min (nat k) len)"

definition py_slice :: "'a list \<Rightarrow> int \<Rightarrow> int \<Rightarrow> 'a list" where
  "py_slice xs i j =
     (let lo = slice_index (length xs) i; hi = slice_index (length xs) j
      in take (hi - lo) (drop lo xs))"

text \<open>\<^verbatim>\<open>sfm[0]\<close>: the first mode of the signal; an array with no row raises.\<close>

definition first_mode :: "signal \<Rightarrow> error + complex list" where
  "first_mode sfm = (case samples sfm of [] \<Rightarrow> Inl IndexError | row # _ \<Rightarrow> Inr row)"

text \<open>
  \<^verbatim>\<open>np.angle(z)\<close> is \<^verbatim>\<open>arctan2(z.imag, z.real)\<close>; over the reals the two-argument
  arctangent is the following case distinction.
\<close>

definition arctan2 :: "real \<Rightarrow> real \<Rightarrow> real" where
  "arctan2 y x =
     (if 0 < x then arctan (y / x)
      else if x < 0 then (if 0 \<le> y then arctan (y / x) + pi else arctan (y / x) - pi)
      else if 0 < y then pi / 2
      else if y < 0 then - (pi / 2)
      else 0)"

definition np_angle :: "complex \<Rightarrow> real" where
  "np_angle z = arctan2 (Im z) (Re z)"

text \<open>\<^verbatim>\<open>np.zeros((size, ordem))\<close>: a negative dimension raises.\<close>

definition np_zeros2 :: "nat \<Rightarrow> int \<Rightarrow> error + real list list" where
  "np_zeros2 sz ordem =
     (if ordem < 0 then Inl ValueError
      else Inr (replicate sz (replicate (nat ordem) 0)))"

text \<open>
  \<^verbatim>\<open>X[n] = aux\<close> for a one-dimensional \<^verbatim>\<open>aux\<close>: numpy broadcasts the source into the
  row. A source as long as the row is copied, a source of length one is repeated across the
  row, and any other length raises.
\<close>

definition set_row :: "real list list \<Rightarrow> nat \<Rightarrow> real list \<Rightarrow> error + real list list" where
  "set_row X n aux =
     (if length X \<le> n then Inl IndexError
      else let w = length (X ! n) in
        if length aux = w then Inr (X[n := aux])
        else if length aux = 1 then Inr (X[n := replicate w (hd aux)])
        else Inl ValueError)"

section \<open>Amplitude and phase extraction\<close>

text \<open>
  \<^verbatim>\<open>abs_and_phases\<close> (lines 43 to 57) reads the first mode of a copy of the signal twice and
  returns a new dictionary; nothing is written to \<^verbatim>\<open>sfm\<close>.
\<close>

definition abs_and_phases :: "signal \<Rightarrow> error + data" where
  "abs_and_phases sfm =
     (case first_mode sfm of
        Inl e \<Rightarrow> Inl e
      | Inr row \<Rightarrow> Inr \<lparr>amplitudes = map cmod row, phases = map np_angle row\<rparr>)"

section \<open>Dataset builders\<close>

text \<open>
  The loop \<^verbatim>\<open>for n in range(size): aux = amplitudes[n:ordem+n]; X[n] = aux\<close> shared by
  \<^verbatim>\<open>dataset_01\<close>, \<^verbatim>\<open>dataset_02\<close> and \<^verbatim>\<open>dataset_03\<close>. The list argument holds the row
  indices still to be visited; the first assignment that raises ends the loop.
\<close>

fun fill_rows :: "real list \<Rightarrow> int \<Rightarrow> nat list \<Rightarrow> real list list \<Rightarrow> error + real list list" where
  "fill_rows amps ordem [] X = Inr X"
| "fill_rows amps ordem (n # ns) X =
     (case set_row X n (py_slice amps (int n) (ordem + int n)) of
        Inl e \<Rightarrow> Inl e
      | Inr X' \<Rightarrow> fill_rows amps ordem ns X')"

text \<open>
  The feature matrix of the three one-dimensional variants: \<^verbatim>\<open>np.zeros\<close> followed by the
  loop over \<^verbatim>\<open>range(size)\<close>.
\<close>

definition feature_rows :: "nat \<Rightarrow> real list \<Rightarrow> int \<Rightarrow> error + real list list" where
  "feature_rows sz amps ordem =
     (case np_zeros2 sz ordem of
        Inl e \<Rightarrow> Inl e
      | Inr X \<Rightarrow> fill_rows amps ordem [0..<sz] X)"

text \<open>
  The body of \<^verbatim>\<open>dataset_01\<close> (lines 79 to 90) with the local constant \<^verbatim>\<open>size\<close> as an
  argument; \<^verbatim>\<open>dataset_01\<close> itself fixes it to 60000 (line 78). A reshape to \<^verbatim>\<open>(-1,)\<close> of
  a one-dimensional array returns it unchanged.
\<close>

definition dataset_01_body ::
  "nat \<Rightarrow> signal \<Rightarrow> int \<Rightarrow> error + (data \<times> real list list \<times> real list)" where
  "dataset_01_body sz sfm ordem =
     (case abs_and_phases sfm of
        Inl e \<Rightarrow> Inl e
      | Inr d \<Rightarrow>
         (case feature_rows sz (amplitudes d) ordem of
            Inl e \<Rightarrow> Inl e
          | Inr X \<Rightarrow>
              let y = py_slice (phases d) (ordem - 1) (int sz + ordem - 1);
                  d1 = d\<lparr>amplitudes := py_slice (amplitudes d) (ordem - 1) (int sz + ordem - 1)\<rparr>;
                  d2 = d1\<lparr>phases := py_slice (phases d1) (ordem - 1) (int sz + ordem - 1)\<rparr>
              in Inr (d2, X, y)))"

definition dataset_01 :: "signal \<Rightarrow> int \<Rightarrow> error + (data \<times> real list list \<times> real list)" where
  "dataset_01 sfm ordem = dataset_01_body 60000 sfm ordem"

text \<open>
  \<^verbatim>\<open>int(ordem/2)\<close>: true division followed by truncation towards zero.
\<close>

definition int_half :: "int \<Rightarrow> int" where
  "int_half ordem = (if 0 \<le> ordem then ordem div 2 else - ((- ordem) div 2))"

definition dataset_02_body ::
  "nat \<Rightarrow> signal \<Rightarrow> int \<Rightarrow> error + (data \<times> real list list \<times> real list)" where
  "dataset_02_body sz sfm ordem =
     (case abs_and_phases sfm of
        Inl e \<Rightarrow> Inl e
      | Inr d \<Rightarrow>
         (case feature_rows sz (amplitudes d) ordem of
            Inl e \<Rightarrow> Inl e
          | Inr X \<Rightarrow>
              let y = py_slice (phases d) (int_half ordem) (int sz + int_half ordem);
                  d1 = d\<lparr>amplitudes :=
                          py_slice (amplitudes d) (int_half ordem) (int sz + int_half ordem)\<rparr>;
                  d2 = d1\<lparr>phases :=
                          py_slice (phases d1) (int_half ordem) (int sz + int_half ordem)\<rparr>
              in Inr (d2, X, y)))"

definition dataset_02 :: "signal \<Rightarrow> int \<Rightarrow> error + (data \<times> real list list \<times> real list)" where
  "dataset_02 sfm ordem = dataset_02_body 60000 sfm ordem"

definition dataset_03_body ::
  "nat \<Rightarrow> signal \<Rightarrow> int \<Rightarrow> error + (data \<times> real list list \<times> real list)" where
  "dataset_03_body sz sfm ordem =
     (case abs_and_phases sfm of
        Inl e \<Rightarrow> Inl e
      | Inr d \<Rightarrow>
         (case feature_rows sz (amplitudes d) ordem of
            Inl e \<Rightarrow> Inl e
          | Inr X \<Rightarrow>
              let y = py_slice (phases d) 0 (int sz);
                  d1 = d\<lparr>amplitudes := py_slice (amplitudes d) 0 (int sz)\<rparr>;
                  d2 = d1\<lparr>phases := py_slice (phases d1) 0 (int sz)\<rparr>
              in Inr (d2, X, y)))"

definition dataset_03 :: "signal \<Rightarrow> int \<Rightarrow> error + (data \<times> real list list \<times> real list)" where
  "dataset_03 sfm ordem = dataset_03_body 60000 sfm ordem"

text \<open>
  \<^verbatim>\<open>dataset_02_CNN\<close> (lines 177 to 190). \<^verbatim>\<open>np.zeros((size, ordem, ordem))\<close> raises on a
  negative dimension.
\<close>

definition np_zeros3 :: "nat \<Rightarrow> int \<Rightarrow> error + real list list list" where
  "np_zeros3 sz ordem =
     (if ordem < 0 then Inl ValueError
      else Inr (replicate sz (replicate (nat ordem) (replicate (nat ordem) 0))))"

text \<open>
  \<^verbatim>\<open>aux.reshape(ordem, ordem)\<close>: the array is cut row-major into \<^verbatim>\<open>ordem\<close> rows of
  \<^verbatim>\<open>ordem\<close> entries; it raises unless the array has exactly \<^verbatim>\<open>ordem*ordem\<close> entries (and
  for two negative dimensions).
\<close>

definition np_reshape_square :: "real list \<Rightarrow> int \<Rightarrow> error + real list list" where
  "np_reshape_square xs ordem =
     (if ordem < 0 \<or> int (length xs) \<noteq> ordem * ordem then Inl ValueError
      else Inr (map (\<lambda>i. take (nat ordem) (drop (i * nat ordem) xs)) [0..<nat ordem]))"

text \<open>
  \<^verbatim>\<open>X[n] = aux\<close> for a two-dimensional \<^verbatim>\<open>aux\<close>. On this path \<^verbatim>\<open>aux\<close> comes out of
  \<^verbatim>\<open>reshape(ordem, ordem)\<close> and \<^verbatim>\<open>X[n]\<close> out of \<^verbatim>\<open>np.zeros((size, ordem, ordem))\<close>, so
  both have the shape \<^verbatim>\<open>(ordem, ordem)\<close> and the assignment copies the block.
\<close>

definition set_block ::
  "real list list list \<Rightarrow> nat \<Rightarrow> real list list \<Rightarrow> error + real list list list" where
  "set_block X n aux = (if length X \<le> n then Inl IndexError else Inr (X[n := aux]))"

fun fill_blocks ::
  "real list \<Rightarrow> int \<Rightarrow> nat list \<Rightarrow> real list list list \<Rightarrow> error + real list list list" where
  "fill_blocks amps ordem [] X = Inr X"
| "fill_blocks amps ordem (n # ns) X =
     (case np_reshape_square (py_slice amps (int n) (ordem * ordem + int n)) ordem of
        Inl e \<Rightarrow> Inl e
      | Inr aux \<Rightarrow>
         (case set_block X n aux of
            Inl e \<Rightarrow> Inl e
          | Inr X' \<Rightarrow> fill_blocks amps ordem ns X'))"

text \<open>
  \<^verbatim>\<open>X.reshape((size, ordem, ordem, 1))\<close>: every entry becomes an innermost array of
  length one; the number of entries is unchanged, so this reshape does not raise.
\<close>

definition add_channel :: "real list list list \<Rightarrow> real list list list list" where
  "add_channel X = map (map (map (\<lambda>v. [v]))) X"

definition dataset_02_CNN_body ::
  "nat \<Rightarrow> signal \<Rightarrow> int \<Rightarrow> error + (data \<times> real list list list list \<times> real list)" where
  "dataset_02_CNN_body sz sfm ordem =
     (case abs_and_phases sfm of
        Inl e \<Rightarrow> Inl e
      | Inr d \<Rightarrow>
         (case np_zeros3 sz ordem of
            Inl e \<Rightarrow> Inl e
          | Inr X0 \<Rightarrow>
             (case fill_blocks (amplitudes d) ordem [0..<sz] X0 of
                Inl e \<Rightarrow> Inl e
              | Inr X \<Rightarrow>
                  let X4 = add_channel X;
                      y = py_slice (phases d) 0 (int sz);
                      d1 = d\<lparr>amplitudes := py_slice (amplitudes d) 0 (int sz)\<rparr>;
                      d2 = d1\<lparr>phases := py_slice (phases d1) 0 (int sz)\<rparr>
                  in Inr (d2, X4, y))))"

definition dataset_02_CNN ::
  "signal \<Rightarrow> int \<Rightarrow> error + (data \<times> real list list list list \<times> real list)" where
  "dataset_02_CNN sfm ordem = dataset_02_CNN_body 60000 sfm ordem"

section \<open>Minimum-phase transform\<close>

text \<open>
  \<^verbatim>\<open>np.arange(0, N)*1/fs\<close>, the ramp \<^verbatim>\<open>2*np.pi*(fb/2)*t\<close>, \<^verbatim>\<open>np.exp(1j*x)\<close> and
  \<^verbatim>\<open>np.deg2rad\<close>.
\<close>

definition time_vector :: "nat \<Rightarrow> real \<Rightarrow> real list" where
  "time_vector N rate = map (\<lambda>n. real n * 1 / rate) [0..<N]"

definition ramp :: "real \<Rightarrow> real list \<Rightarrow> real list" where
  "ramp rate t = map (\<lambda>tn. 2 * pi * (rate / 2) * tn) t"

definition np_exp_j :: "real \<Rightarrow> complex" where
  "np_exp_j x = exp (\<i> * complex_of_real x)"

definition deg2rad :: "real \<Rightarrow> real" where
  "deg2rad x = x * (pi / 180)"

text \<open>\<^verbatim>\<open>np.max\<close> of an array: an array with no element raises.\<close>

definition np_max :: "real list \<Rightarrow> error + real" where
  "np_max xs = (case xs of [] \<Rightarrow> Inl ValueError | x # r \<Rightarrow> Inr (fold max r x))"

text \<open>
  An elementwise binary operation between a row of a two-dimensional array and a
  one-dimensional array, under numpy's broadcasting of the last axis: equal lengths pair
  up, a length of one is stretched, anything else raises.
\<close>

definition bcast_op ::
  "(complex \<Rightarrow> complex \<Rightarrow> complex) \<Rightarrow> complex list \<Rightarrow> complex list \<Rightarrow> error + complex list" where
  "bcast_op f xs ys =
     (if length xs = length ys then Inr (map2 f xs ys)
      else if length xs = 1 then Inr (map (f (hd xs)) ys)
      else if length ys = 1 then Inr (map (\<lambda>x. f x (hd ys)) xs)
      else Inl ValueError)"

fun map_rows :: "('a \<Rightarrow> error + 'b) \<Rightarrow> 'a list \<Rightarrow> error + 'b list" where
  "map_rows f [] = Inr []"
| "map_rows f (r # rs) =
     (case f r of
        Inl e \<Rightarrow> Inl e
      | Inr r' \<Rightarrow> (case map_rows f rs of Inl e \<Rightarrow> Inl e | Inr rs' \<Rightarrow> Inr (r' # rs')))"

text \<open>
  \<^verbatim>\<open>sinal_qam_fase_min\<close>, lines 28 to 34. Lines 23 to 27 call the external signal library:
  \<^verbatim>\<open>s\<close> is the signal that \<^verbatim>\<open>simulate_transmission\<close> returns and \<^verbatim>\<open>sfilt\<close> the filtered,
  normalised signal; both are arguments here. The time vector is taken from \<^verbatim>\<open>s\<close>, the
  symbol rate from \<^verbatim>\<open>sfilt\<close>, and the result keeps the attributes of \<^verbatim>\<open>sfilt\<close>.
\<close>

definition sinal_qam_fase_min :: "signal \<Rightarrow> signal \<Rightarrow> error + (signal \<times> complex)" where
  "sinal_qam_fase_min s sfilt =
     (case first_mode s of
        Inl e \<Rightarrow> Inl e
      | Inr s0 \<Rightarrow>
          let t = time_vector (length s0) (fs s) in
          (case np_max (map cmod (concat (samples sfilt))) of
             Inl e \<Rightarrow> Inl e
           | Inr peak \<Rightarrow>
               let A = complex_of_real peak * np_exp_j (deg2rad 45);
                   \<Delta>f = ramp (fb sfilt) t
               in (case map_rows (\<lambda>r. bcast_op (*) r (map np_exp_j \<Delta>f)) (samples sfilt) of
                     Inl e \<Rightarrow> Inl e
                   | Inr rows \<Rightarrow> Inr (sfilt\<lparr>samples := map (map (\<lambda>z. A + z)) rows\<rparr>, A))))"

text \<open>\<^verbatim>\<open>reverter_sinal_fase_min\<close>, lines 36 to 41.\<close>

definition reverter_sinal_fase_min :: "signal \<Rightarrow> complex \<Rightarrow> error + signal" where
  "reverter_sinal_fase_min sinal A =
     (case first_mode sinal of
        Inl e \<Rightarrow> Inl e
      | Inr s0 \<Rightarrow>
          let t = time_vector (length s0) (fs sinal);
              \<Delta>f = ramp (fb sinal) t
          in (case map_rows (\<lambda>r. bcast_op (/) r (map np_exp_j \<Delta>f))
                      (map (map (\<lambda>z. z - A)) (samples sinal)) of
                Inl e \<Rightarrow> Inl e
              | Inr rows \<Rightarrow> Inr (sinal\<lparr>samples := rows\<rparr>)))"

section \<open>Auxiliary notions for the proofs\<close>

text \<open>The row that \<open>set_row\<close> stores when the assignment succeeds.\<close>

definition bcast_row :: "nat \<Rightarrow> real list \<Rightarrow> real list" where
  "bcast_row w aux = (if length aux = w then aux else replicate w (hd aux))"

text \<open>The square block that \<open>np_reshape_square\<close> returns when the reshape succeeds.\<close>

definition grid :: "nat \<Rightarrow> real list \<Rightarrow> real list list" where
  "grid w xs = map (\<lambda>i. take w (drop (i * w) xs)) [0..<w]"

text \<open>
  The carrier \<open>exp(i * ramp)\<close> that both transforms build, and the peak modulus of a
  signal.
\<close>

definition carrier :: "real \<Rightarrow> real \<Rightarrow> nat \<Rightarrow> complex list" where
  "carrier rate_b rate_s N = map np_exp_j (ramp rate_b (time_vector N rate_s))"

definition peak :: "signal \<Rightarrow> real" where
  "peak sfilt = Max (set (map cmod (concat (samples sfilt))))"

section \<open>Slices and the row loop\<close>

lemma py_slice_nonneg:
  "0 \<le> i \<Longrightarrow> 0 \<le> j \<Longrightarrow> py_slice xs i j = take (nat j - nat i) (drop (nat i) xs)"
  by (auto simp: py_slice_def slice_index_def Let_def min_def)

lemma window_slice:
  "0 \<le> ordem \<Longrightarrow> py_slice amps (int n) (ordem + int n) = take (nat ordem) (drop n amps)"
  by (simp add: py_slice_nonneg nat_add_distrib)

lemma set_row_ok:
  assumes "n < length X" "length (X ! n) = w" "length aux = w \<or> length aux = 1"
  shows "set_row X n aux = Inr (X[n := bcast_row w aux])"
  using assms by (auto simp: set_row_def bcast_row_def Let_def)

lemma set_row_bad:
  assumes "n < length X" "length (X ! n) = w" "length aux \<noteq> w" "length aux \<noteq> 1"
  shows "set_row X n aux = Inl ValueError"
  using assms by (simp add: set_row_def Let_def)

lemma length_bcast_row:
  "length aux = w \<or> length aux = 1 \<Longrightarrow> length (bcast_row w aux) = w"
  by (auto simp: bcast_row_def)

lemma fill_rows_char:
  assumes "\<forall>n\<in>set ns. n < length X" "\<forall>r\<in>set X. length r = w"
  shows "fill_rows amps ordem ns X =
    (if \<forall>n\<in>set ns. length (py_slice amps (int n) (ordem + int n)) = w
                     \<or> length (py_slice amps (int n) (ordem + int n)) = 1
     then Inr (map (\<lambda>i. if i \<in> set ns then bcast_row w (py_slice amps (int i) (ordem + int i))
                         else X ! i) [0..<length X])
     else Inl ValueError)"
  using assms
proof (induction ns arbitrary: X)
  case Nil
  then show ?case by (simp add: map_nth)
next
  case (Cons n ns)
  let ?S = "\<lambda>k. py_slice amps (int k) (ordem + int k)"
  have n: "n < length X" and w: "length (X ! n) = w" using Cons.prems by auto
  show ?case
  proof (cases "length (?S n) = w \<or> length (?S n) = 1")
    case False
    then show ?thesis using set_row_bad[OF n w, of "?S n"] by auto
  next
    case True
    let ?X' = "X[n := bcast_row w (?S n)]"
    have step: "set_row X n (?S n) = Inr ?X'" by (rule set_row_ok[OF n w True])
    have p1: "\<forall>k\<in>set ns. k < length ?X'" using Cons.prems by simp
    have p2: "\<forall>r\<in>set ?X'. length r = w"
      using Cons.prems(2) length_bcast_row[OF True] set_update_subset_insert[of X n] by fastforce
    have eq: "map (\<lambda>i. if i \<in> set ns then bcast_row w (?S i) else ?X' ! i) [0..<length ?X']
            = map (\<lambda>i. if i \<in> set (n # ns) then bcast_row w (?S i) else X ! i) [0..<length X]"
      by (auto simp: nth_list_update)
    show ?thesis using True Cons.IH[OF p1 p2] step eq by auto
  qed
qed

lemma feature_rows_char:
  assumes "0 \<le> ordem"
  shows "feature_rows sz amps ordem =
    (if \<forall>n<sz. length (take (nat ordem) (drop n amps)) = nat ordem
              \<or> length (take (nat ordem) (drop n amps)) = 1
     then Inr (map (\<lambda>n. bcast_row (nat ordem) (take (nat ordem) (drop n amps))) [0..<sz])
     else Inl ValueError)"
proof -
  let ?X = "replicate sz (replicate (nat ordem) (0::real))"
  have z: "np_zeros2 sz ordem = Inr ?X" using assms by (simp add: np_zeros2_def)
  have a: "\<forall>n\<in>set [0..<sz]. n < length ?X" by simp
  have b: "\<forall>r\<in>set ?X. length r = nat ordem" by simp
  show ?thesis
    unfolding feature_rows_def z
    using fill_rows_char[OF a b, of amps ordem] assms
    by (simp add: window_slice cong: map_cong)
qed

lemma feature_rows_full:
  assumes "0 \<le> ordem" "sz + nat ordem \<le> length amps + 1"
  shows "feature_rows sz amps ordem = Inr (map (\<lambda>n. take (nat ordem) (drop n amps)) [0..<sz])"
proof -
  have "\<forall>n<sz. length (take (nat ordem) (drop n amps)) = nat ordem"
    using assms(2) by auto
  then show ?thesis
    unfolding feature_rows_char[OF assms(1)] by (simp add: bcast_row_def cong: map_cong)
qed

lemma abs_and_phases_row:
  "samples sfm = row # rest \<Longrightarrow>
   abs_and_phases sfm = Inr \<lparr>amplitudes = map cmod row, phases = map np_angle row\<rparr>"
  by (simp add: abs_and_phases_def first_mode_def)

lemma target_slice:
  "0 \<le> k \<Longrightarrow> py_slice xs k (int sz + k) = take sz (drop (nat k) xs)"
  by (simp add: py_slice_nonneg nat_add_distrib)

lemma dataset_01_body_full:
  assumes "samples sfm = row # rest" "1 \<le> ordem" "sz + nat ordem \<le> length row + 1"
  shows "dataset_01_body sz sfm ordem =
     Inr (\<lparr>amplitudes = take sz (drop (nat ordem - 1) (map cmod row)),
           phases = take sz (drop (nat ordem - 1) (map np_angle row))\<rparr>,
          map (\<lambda>n. take (nat ordem) (drop n (map cmod row))) [0..<sz],
          take sz (drop (nat ordem - 1) (map np_angle row)))"
proof -
  have f: "feature_rows sz (map cmod row) ordem
         = Inr (map (\<lambda>n. take (nat ordem) (drop n (map cmod row))) [0..<sz])"
    using assms by (intro feature_rows_full) auto
  have k: "int sz + ordem - 1 = int sz + (ordem - 1)" by simp
  have n: "nat (ordem - 1) = nat ordem - 1" by (simp add: nat_diff_distrib)
  show ?thesis
    unfolding dataset_01_body_def abs_and_phases_row[OF assms(1)]
    using assms(2) by (simp add: f k target_slice n del: add_diff_eq)
qed

lemma abs_and_phases_InrD:
  assumes "abs_and_phases sfm = Inr tr"
  obtains row rest where "samples sfm = row # rest"
    and "tr = \<lparr>amplitudes = map cmod row, phases = map np_angle row\<rparr>"
  using assms by (auto simp: abs_and_phases_def first_mode_def split: list.splits)

lemma abs_and_phases_lengths:
  "abs_and_phases sfm = Inr tr \<Longrightarrow> length (phases tr) = length (amplitudes tr)"
  by (erule abs_and_phases_InrD) simp

lemma dataset_01_body_traces:
  assumes "abs_and_phases sfm = Inr tr" "1 \<le> ordem" "sz + nat ordem \<le> length (amplitudes tr) + 1"
  shows "dataset_01_body sz sfm ordem =
     Inr (\<lparr>amplitudes = take sz (drop (nat ordem - 1) (amplitudes tr)),
           phases = take sz (drop (nat ordem - 1) (phases tr))\<rparr>,
          map (\<lambda>n. take (nat ordem) (drop n (amplitudes tr))) [0..<sz],
          take sz (drop (nat ordem - 1) (phases tr)))"
  using assms(1)
proof (rule abs_and_phases_InrD)
  fix row rest
  assume r: "samples sfm = row # rest"
    and t: "tr = \<lparr>amplitudes = map cmod row, phases = map np_angle row\<rparr>"
  have "sz + nat ordem \<le> length row + 1" using assms(3) t by simp
  from dataset_01_body_full[OF r assms(2) this] show ?thesis by (simp add: t)
qed

text \<open>
  The body at \<open>size = 10\<close> and \<open>ordem = 4\<close>, on traces of at least 13 samples: the first
  row is \<open>[a0, a1, a2, a3]\<close>, the first target is \<open>p3\<close> and the last one is \<open>p12\<close>.
\<close>

lemma dataset_01_body_example:
  assumes "abs_and_phases sfm = Inr tr" "13 \<le> length (amplitudes tr)"
  shows "\<exists>d X y. dataset_01_body 10 sfm 4 = Inr (d, X, y)
           \<and> length X = 10 \<and> length y = 10
           \<and> X ! 0 = take 4 (amplitudes tr)
           \<and> y ! 0 = phases tr ! 3 \<and> y ! 9 = phases tr ! 12"
proof -
  have o: "(1::int) \<le> 4" by simp
  have l: "10 + nat 4 \<le> length (amplitudes tr) + 1" using assms(2) by simp
  have pl: "13 \<le> length (phases tr)"
    using abs_and_phases_lengths[OF assms(1)] assms(2) by simp
  have u: "[0..<10] ! 0 = 0" by simp
  show ?thesis
    unfolding dataset_01_body_traces[OF assms(1) o l]
    using pl u by (simp add: nth_map[of 0 "[0..<10]"])
qed

lemma upt_4: "[0..<4] = [0, 1, 2, Suc 2]"
  by (simp add: upt_conv_Cons)

lemma upt_9: "[0..<9] = [0, 1, 2, 3, 4, 5, 6, 7, Suc 7]"
  by (simp add: upt_conv_Cons)

lemma abs_and_phases_ramp:
  "abs_and_phases \<lparr>samples = [map of_nat [0..<N]], fs = r, fb = b\<rparr>
   = Inr \<lparr>amplitudes = map (cmod \<circ> of_nat) [0..<N], phases = map (np_angle \<circ> of_nat) [0..<N]\<rparr>"
  by (simp add: abs_and_phases_def first_mode_def)

section \<open>Alignment of the dataset builders\<close>

text \<open>
  Claim C3 (variant 1, last sample). When the amplitude trace holds at least
  \<open>59999 + ordem\<close> samples and \<open>ordem\<close> is at least one, \<open>dataset_01\<close> returns; the feature
  matrix has 60000 rows of \<open>ordem\<close> entries, the target vector has 60000 entries, and for
  every row \<open>n\<close> below 60000 the row \<open>X[n]\<close> is the \<open>ordem\<close> consecutive amplitudes that start
  at offset \<open>n\<close> while \<open>y[n]\<close> is the phase at index \<open>ordem - 1 + n\<close>. With \<open>ordem = 4\<close> this
  gives \<open>X[0] = [a0, a1, a2, a3]\<close>, \<open>y[0] = p3\<close> and \<open>y[9] = p12\<close>.
\<close>

theorem dataset_01_alignment:
  assumes "abs_and_phases sfm = Inr tr"
    and "1 \<le> ordem"
    and "59999 + nat ordem \<le> length (amplitudes tr)"
    and "n < 60000"
  shows "\<exists>d X y. dataset_01 sfm ordem = Inr (d, X, y)
           \<and> length X = 60000 \<and> length (X ! n) = nat ordem \<and> length y = 60000
           \<and> X ! n = take (nat ordem) (drop n (amplitudes tr))
           \<and> y ! n = phases tr ! (nat ordem - 1 + n)"
proof -
  have len: "60000 + nat ordem \<le> length (amplitudes tr) + 1" using assms(3) by simp
  have pl: "length (phases tr) = length (amplitudes tr)"
    by (rule abs_and_phases_lengths[OF assms(1)])
  have w: "length (take (nat ordem) (drop n (amplitudes tr))) = nat ordem"
    using assms(3,4) by simp
  have ylen: "length (take 60000 (drop (nat ordem - 1) (phases tr))) = 60000"
    using assms(2,3) pl by simp
  have yn: "take 60000 (drop (nat ordem - 1) (phases tr)) ! n = phases tr ! (nat ordem - 1 + n)"
    using assms(2,3,4) pl by simp
  show ?thesis
    unfolding dataset_01_def dataset_01_body_traces[OF assms(1,2) len]
    using assms(4) w ylen yn by simp
qed

theorem dataset_01_alignment_witness:
  "(\<exists>d X y. dataset_01 \<lparr>samples = [map of_nat [0..<60003]], fs = 4, fb = 1\<rparr> 4 = Inr (d, X, y)
       \<and> length X = 60000 \<and> length (X ! 0) = 4 \<and> length y = 60000
       \<and> X ! 0 = [0, 1, 2, 3]
       \<and> y ! 0 = np_angle 3)
   \<and> (\<exists>d X y. dataset_01 \<lparr>samples = [map of_nat [0..<60003]], fs = 4, fb = 1\<rparr> 4 = Inr (d, X, y)
       \<and> y ! 9 = np_angle 12)"
proof -
  let ?S = "\<lparr>samples = [map of_nat [0..<60003]], fs = 4, fb = 1\<rparr>"
  let ?tr = "\<lparr>amplitudes = map (cmod \<circ> of_nat) [0..<60003],
              phases = map (np_angle \<circ> of_nat) [0..<60003]\<rparr>"
  have h1: "abs_and_phases ?S = Inr ?tr" by (rule abs_and_phases_ramp)
  have h2: "(1::int) \<le> 4" by simp
  have h3: "59999 + nat 4 \<le> length (amplitudes ?tr)" by simp
  have h4: "(0::nat) < 60000" by simp
  have h5: "(9::nat) < 60000" by simp
  have "take (nat 4) (drop 0 (amplitudes ?tr)) = map (cmod \<circ> of_nat) [0..<4]"
    by (simp add: take_map)
  then have a: "take (nat 4) (drop 0 (amplitudes ?tr)) = [0, 1, 2, 3]"
    unfolding upt_4 by simp
  have p0: "phases ?tr ! (nat 4 - 1 + 0) = np_angle 3" by simp
  have p9: "phases ?tr ! (nat 4 - 1 + 9) = np_angle 12" by simp
  have first: "\<exists>d X y. dataset_01 ?S 4 = Inr (d, X, y)
       \<and> length X = 60000 \<and> length (X ! 0) = 4 \<and> length y = 60000
       \<and> X ! 0 = [0, 1, 2, 3]
       \<and> y ! 0 = np_angle 3"
    using dataset_01_alignment[OF h1 h2 h3 h4] unfolding a p0 by simp
  have tenth: "\<exists>d X y. dataset_01 ?S 4 = Inr (d, X, y) \<and> y ! 9 = np_angle 12"
    using dataset_01_alignment[OF h1 h2 h3 h5] unfolding p9 by blast
  show ?thesis using first tenth by (rule conjI)
qed

lemma nat_int_half: "0 \<le> ordem \<Longrightarrow> nat (int_half ordem) = nat ordem div 2"
  by (simp add: int_half_def nat_div_distrib)

lemma dataset_02_body_traces:
  assumes "abs_and_phases sfm = Inr tr" "1 \<le> ordem" "sz + nat ordem \<le> length (amplitudes tr) + 1"
  shows "dataset_02_body sz sfm ordem =
     Inr (\<lparr>amplitudes = take sz (drop (nat ordem div 2) (amplitudes tr)),
           phases = take sz (drop (nat ordem div 2) (phases tr))\<rparr>,
          map (\<lambda>n. take (nat ordem) (drop n (amplitudes tr))) [0..<sz],
          take sz (drop (nat ordem div 2) (phases tr)))"
proof -
  have f: "feature_rows sz (amplitudes tr) ordem
         = Inr (map (\<lambda>n. take (nat ordem) (drop n (amplitudes tr))) [0..<sz])"
    using assms by (intro feature_rows_full) auto
  have h: "0 \<le> int_half ordem" using assms(2) by (simp add: int_half_def)
  have n: "nat (int_half ordem) = nat ordem div 2" using assms(2) by (simp add: nat_int_half)
  show ?thesis
    unfolding dataset_02_body_def assms(1)
    by (simp add: f target_slice[OF h] n)
qed

lemma dataset_03_body_traces:
  assumes "abs_and_phases sfm = Inr tr" "1 \<le> ordem" "sz + nat ordem \<le> length (amplitudes tr) + 1"
  shows "dataset_03_body sz sfm ordem =
     Inr (\<lparr>amplitudes = take sz (amplitudes tr), phases = take sz (phases tr)\<rparr>,
          map (\<lambda>n. take (nat ordem) (drop n (amplitudes tr))) [0..<sz],
          take sz (phases tr))"
proof -
  have f: "feature_rows sz (amplitudes tr) ordem
         = Inr (map (\<lambda>n. take (nat ordem) (drop n (amplitudes tr))) [0..<sz])"
    using assms by (intro feature_rows_full) auto
  have s: "\<And>xs::real list. py_slice xs 0 (int sz) = take sz xs"
    by (simp add: py_slice_nonneg)
  show ?thesis
    unfolding dataset_03_body_def assms(1)
    by (simp add: f s)
qed

text \<open>
  Claim C4 (variant 2, centre sample). Under the same conditions \<open>dataset_02\<close> returns 60000
  rows of \<open>ordem\<close> consecutive amplitudes, and \<open>y[n]\<close> is the phase at index
  \<open>int(ordem/2) + n\<close>. The offset is the floor of \<open>ordem/2\<close>: for an odd \<open>ordem\<close> it is
  \<open>(ordem - 1)/2\<close>, below the half, and for an even \<open>ordem\<close> it is exactly \<open>ordem/2\<close>. With
  \<open>ordem = 4\<close> this gives \<open>y[0] = p2\<close>.
\<close>

theorem dataset_02_alignment:
  assumes "abs_and_phases sfm = Inr tr"
    and "1 \<le> ordem"
    and "59999 + nat ordem \<le> length (amplitudes tr)"
    and "n < 60000"
  shows "\<exists>d X y. dataset_02 sfm ordem = Inr (d, X, y)
           \<and> length X = 60000 \<and> length (X ! n) = nat ordem \<and> length y = 60000
           \<and> X ! n = take (nat ordem) (drop n (amplitudes tr))
           \<and> y ! n = phases tr ! (nat (int_half ordem) + n)
           \<and> int_half ordem = \<lfloor>real_of_int ordem / 2\<rfloor>
           \<and> (odd ordem \<longrightarrow> 2 * int_half ordem = ordem - 1)
           \<and> (even ordem \<longrightarrow> 2 * int_half ordem = ordem)"
proof -
  have len: "60000 + nat ordem \<le> length (amplitudes tr) + 1" using assms(3) by simp
  have pl: "length (phases tr) = length (amplitudes tr)"
    by (rule abs_and_phases_lengths[OF assms(1)])
  have h: "nat (int_half ordem) = nat ordem div 2" using assms(2) by (simp add: nat_int_half)
  have hle: "nat ordem div 2 + 60000 \<le> length (phases tr)"
    using assms(2,3) pl by linarith
  have ylen: "length (take 60000 (drop (nat ordem div 2) (phases tr))) = 60000"
    using hle by simp
  have yn: "take 60000 (drop (nat ordem div 2) (phases tr)) ! n = phases tr ! (nat ordem div 2 + n)"
    using hle assms(4) by simp
  have w: "length (take (nat ordem) (drop n (amplitudes tr))) = nat ordem"
    using assms(3,4) by simp
  have fl: "int_half ordem = \<lfloor>real_of_int ordem / 2\<rfloor>"
    using assms(2) by (simp add: int_half_def floor_divide_of_int_eq[of ordem 2, simplified])
  have od: "odd ordem \<longrightarrow> 2 * int_half ordem = ordem - 1"
    using assms(2) by (auto simp: int_half_def elim!: oddE)
  have ev: "even ordem \<longrightarrow> 2 * int_half ordem = ordem"
    using assms(2) by (auto simp: int_half_def)
  show ?thesis
    unfolding dataset_02_def dataset_02_body_traces[OF assms(1,2) len]
    using assms(4) w ylen yn fl od ev h by simp
qed

theorem dataset_02_alignment_witness:
  "\<exists>d X y. dataset_02 \<lparr>samples = [map of_nat [0..<60003]], fs = 4, fb = 1\<rparr> 4 = Inr (d, X, y)
     \<and> length X = 60000 \<and> length (X ! 0) = 4 \<and> length y = 60000
     \<and> X ! 0 = [0, 1, 2, 3]
     \<and> y ! 0 = np_angle 2"
proof -
  let ?S = "\<lparr>samples = [map of_nat [0..<60003]], fs = 4, fb = 1\<rparr>"
  let ?tr = "\<lparr>amplitudes = map (cmod \<circ> of_nat) [0..<60003],
              phases = map (np_angle \<circ> of_nat) [0..<60003]\<rparr>"
  have h1: "abs_and_phases ?S = Inr ?tr" by (rule abs_and_phases_ramp)
  have h2: "(1::int) \<le> 4" by simp
  have h3: "59999 + nat 4 \<le> length (amplitudes ?tr)" by simp
  have h4: "(0::nat) < 60000" by simp
  have "take (nat 4) (drop 0 (amplitudes ?tr)) = map (cmod \<circ> of_nat) [0..<4]"
    by (simp add: take_map)
  then have a: "take (nat 4) (drop 0 (amplitudes ?tr)) = [0, 1, 2, 3]"
    unfolding upt_4 by simp
  have p: "phases ?tr ! (nat (int_half 4) + 0) = np_angle 2"
    by (simp add: int_half_def)
  show ?thesis using dataset_02_alignment[OF h1 h2 h3 h4] a p by (simp; blast)
qed

text \<open>
  Claim C5 (variant 3, first sample). Under the same conditions \<open>dataset_03\<close> returns 60000
  rows of \<open>ordem\<close> consecutive amplitudes starting at offset \<open>n\<close>, and \<open>y[n]\<close> is the phase
  at index \<open>n\<close>. With \<open>ordem = 4\<close> this gives \<open>y[0] = p0\<close> and \<open>X[0] = [a0, a1, a2, a3]\<close>.
\<close>

theorem dataset_03_alignment:
  assumes "abs_and_phases sfm = Inr tr"
    and "1 \<le> ordem"
    and "59999 + nat ordem \<le> length (amplitudes tr)"
    and "n < 60000"
  shows "\<exists>d X y. dataset_03 sfm ordem = Inr (d, X, y)
           \<and> length X = 60000 \<and> length (X ! n) = nat ordem \<and> length y = 60000
           \<and> X ! n = take (nat ordem) (drop n (amplitudes tr))
           \<and> y ! n = phases tr ! n"
proof -
  have len: "60000 + nat ordem \<le> length (amplitudes tr) + 1" using assms(3) by simp
  have pl: "length (phases tr) = length (amplitudes tr)"
    by (rule abs_and_phases_lengths[OF assms(1)])
  have w: "length (take (nat ordem) (drop n (amplitudes tr))) = nat ordem"
    using assms(3,4) by simp
  have ylen: "length (take 60000 (phases tr)) = 60000"
    using assms(2,3) pl by simp
  show ?thesis
    unfolding dataset_03_def dataset_03_body_traces[OF assms(1,2) len]
    using assms(4) w ylen by simp
qed

theorem dataset_03_alignment_witness:
  "\<exists>d X y. dataset_03 \<lparr>samples = [map of_nat [0..<60003]], fs = 4, fb = 1\<rparr> 4 = Inr (d, X, y)
     \<and> length X = 60000 \<and> length (X ! 0) = 4 \<and> length y = 60000
     \<and> X ! 0 = [0, 1, 2, 3]
     \<and> y ! 0 = np_angle 0"
proof -
  let ?S = "\<lparr>samples = [map of_nat [0..<60003]], fs = 4, fb = 1\<rparr>"
  let ?tr = "\<lparr>amplitudes = map (cmod \<circ> of_nat) [0..<60003],
              phases = map (np_angle \<circ> of_nat) [0..<60003]\<rparr>"
  have h1: "abs_and_phases ?S = Inr ?tr" by (rule abs_and_phases_ramp)
  have h2: "(1::int) \<le> 4" by simp
  have h3: "59999 + nat 4 \<le> length (amplitudes ?tr)" by simp
  have h4: "(0::nat) < 60000" by simp
  have "take (nat 4) (drop 0 (amplitudes ?tr)) = map (cmod \<circ> of_nat) [0..<4]"
    by (simp add: take_map)
  then have a: "take (nat 4) (drop 0 (amplitudes ?tr)) = [0, 1, 2, 3]"
    unfolding upt_4 by simp
  have p: "phases ?tr ! 0 = np_angle 0" by simp
  show ?thesis using dataset_03_alignment[OF h1 h2 h3 h4] a p by simp
qed

lemma concat_rows: "concat (map (\<lambda>i. take c (drop (i * c) xs)) [0..<r]) = take (r * c) xs"
proof (induction r)
  case 0
  show ?case by simp
next
  case (Suc r)
  have "take (r * c + c) xs = take (r * c) xs @ take c (drop (r * c) xs)"
    by (rule take_add)
  with Suc show ?case by (simp add: add.commute)
qed

lemma concat_grid: "length xs = w * w \<Longrightarrow> concat (grid w xs) = xs"
  by (simp add: grid_def concat_rows)

lemma length_grid: "length (grid w xs) = w"
  by (simp add: grid_def)

lemma grid_row_length:
  assumes "length xs = w * w" "r \<in> set (grid w xs)"
  shows "length r = w"
proof -
  obtain i where i: "i < w" and r: "r = take w (drop (i * w) xs)"
    using assms(2) by (auto simp: grid_def)
  have "Suc i * w \<le> w * w" using i by (metis Suc_leI mult_le_mono1)
  then have "i * w + w \<le> length xs" using assms(1) by (simp add: add.commute)
  then show ?thesis using r by simp
qed

lemma np_reshape_square_ok:
  assumes "0 \<le> ordem" "length xs = nat ordem * nat ordem"
  shows "np_reshape_square xs ordem = Inr (grid (nat ordem) xs)"
proof -
  have "int (length xs) = ordem * ordem"
    using assms by (simp add: nat_mult_distrib[symmetric])
  then show ?thesis using assms(1) by (simp add: np_reshape_square_def grid_def)
qed

lemma block_slice:
  assumes "0 \<le> ordem"
  shows "py_slice amps (int n) (ordem * ordem + int n)
       = take (nat ordem * nat ordem) (drop n amps)"
proof -
  have "0 \<le> ordem * ordem" using assms by simp
  then have "py_slice amps (int n) (ordem * ordem + int n) = take (nat (ordem * ordem)) (drop n amps)"
    by (rule window_slice)
  then show ?thesis using assms by (simp add: nat_mult_distrib)
qed

lemma fill_blocks_full:
  assumes "0 \<le> ordem"
    and "\<forall>n\<in>set ns. n < length X \<and> n + nat ordem * nat ordem \<le> length amps"
  shows "fill_blocks amps ordem ns X =
     Inr (map (\<lambda>i. if i \<in> set ns
                    then grid (nat ordem) (take (nat ordem * nat ordem) (drop i amps))
                    else X ! i) [0..<length X])"
  using assms(2)
proof (induction ns arbitrary: X)
  case Nil
  then show ?case by (simp add: map_nth)
next
  case (Cons n ns)
  let ?B = "\<lambda>i. grid (nat ordem) (take (nat ordem * nat ordem) (drop i amps))"
  have n: "n < length X" and l: "n + nat ordem * nat ordem \<le> length amps"
    using Cons.prems by auto
  have len: "length (take (nat ordem * nat ordem) (drop n amps)) = nat ordem * nat ordem"
    using l by simp
  have r: "np_reshape_square (py_slice amps (int n) (ordem * ordem + int n)) ordem = Inr (?B n)"
    unfolding block_slice[OF assms(1)] by (rule np_reshape_square_ok[OF assms(1) len])
  have b: "set_block X n (?B n) = Inr (X[n := ?B n])"
    using n by (simp add: set_block_def)
  have p: "\<forall>k\<in>set ns. k < length (X[n := ?B n]) \<and> k + nat ordem * nat ordem \<le> length amps"
    using Cons.prems by simp
  have eq: "map (\<lambda>i. if i \<in> set ns then ?B i else (X[n := ?B n]) ! i) [0..<length (X[n := ?B n])]
          = map (\<lambda>i. if i \<in> set (n # ns) then ?B i else X ! i) [0..<length X]"
    by (auto simp: nth_list_update)
  show ?case using Cons.IH[OF p] r b eq by simp
qed

lemma dataset_02_CNN_body_traces:
  assumes "abs_and_phases sfm = Inr tr" "0 \<le> ordem"
    and "sz + nat ordem * nat ordem \<le> length (amplitudes tr) + 1"
  shows "dataset_02_CNN_body sz sfm ordem =
     Inr (\<lparr>amplitudes = take sz (amplitudes tr), phases = take sz (phases tr)\<rparr>,
          add_channel (map (\<lambda>n. grid (nat ordem)
                 (take (nat ordem * nat ordem) (drop n (amplitudes tr)))) [0..<sz]),
          take sz (phases tr))"
proof -
  let ?X0 = "replicate sz (replicate (nat ordem) (replicate (nat ordem) (0::real)))"
  have z: "np_zeros3 sz ordem = Inr ?X0" using assms(2) by (simp add: np_zeros3_def)
  have p: "\<forall>n\<in>set [0..<sz]. n < length ?X0
             \<and> n + nat ordem * nat ordem \<le> length (amplitudes tr)"
    using assms(3) by auto
  have f: "fill_blocks (amplitudes tr) ordem [0..<sz] ?X0
         = Inr (map (\<lambda>n. grid (nat ordem)
                 (take (nat ordem * nat ordem) (drop n (amplitudes tr)))) [0..<sz])"
    unfolding fill_blocks_full[OF assms(2) p] by (simp cong: map_cong)
  have s: "\<And>xs::real list. py_slice xs 0 (int sz) = take sz xs"
    by (simp add: py_slice_nonneg)
  show ?thesis
    unfolding dataset_02_CNN_body_def assms(1) z
    by (simp add: f s)
qed

lemma window_room: "(1::nat) \<le> k \<Longrightarrow> 59999 + k \<le> L \<Longrightarrow> 60000 \<le> L"
  by simp

lemma flatten_channel: "concat (concat (map (map (\<lambda>v. [v])) G)) = concat G"
proof -
  have "concat (map (map (\<lambda>v. [v])) G) = map (\<lambda>v. [v]) (concat G)"
    by (simp add: map_concat)
  moreover have "\<And>zs::real list. concat (map (\<lambda>v. [v]) zs) = zs"
    by (induct_tac zs) simp_all
  ultimately show ?thesis by simp
qed

lemma channel_rows:
  assumes "length xs = w * w" "r \<in> set (map (map (\<lambda>v. [v])) (grid w xs))"
  shows "length r = w \<and> (\<forall>c\<in>set r. length c = 1)"
proof -
  obtain g where g: "g \<in> set (grid w xs)" and r: "r = map (\<lambda>v. [v]) g"
    using assms(2) by auto
  have "length g = w" by (rule grid_row_length[OF assms(1) g])
  then show ?thesis unfolding r by auto
qed

text \<open>
  Claim C6 (convolutional variant). When the amplitude trace holds at least
  \<open>59999 + ordem * ordem\<close> samples, \<open>dataset_02_CNN\<close> returns a feature array of shape
  \<open>(60000, ordem, ordem, 1)\<close>: 60000 blocks of \<open>ordem\<close> rows of \<open>ordem\<close> innermost arrays of
  length one. The row-major flattening of block \<open>n\<close> is the window of \<open>ordem * ordem\<close> consecutive
  amplitudes that starts at offset \<open>n\<close>, and \<open>y[n]\<close> is the phase at index \<open>n\<close>.
\<close>

theorem dataset_02_CNN_reshape:
  assumes "abs_and_phases sfm = Inr tr"
    and "1 \<le> ordem"
    and "59999 + nat ordem * nat ordem \<le> length (amplitudes tr)"
    and "n < 60000"
  shows "\<exists>d X y. dataset_02_CNN sfm ordem = Inr (d, X, y)
           \<and> length X = 60000 \<and> length (X ! n) = nat ordem
           \<and> (\<forall>r\<in>set (X ! n). length r = nat ordem \<and> (\<forall>c\<in>set r. length c = 1))
           \<and> concat (concat (X ! n)) = take (nat ordem * nat ordem) (drop n (amplitudes tr))
           \<and> length (concat (concat (X ! n))) = nat ordem * nat ordem
           \<and> length y = 60000
           \<and> y ! n = phases tr ! n"
proof -
  let ?w = "nat ordem"
  let ?win = "take (?w * ?w) (drop n (amplitudes tr))"
  have len: "60000 + ?w * ?w \<le> length (amplitudes tr) + 1" using assms(3) by simp
  have o: "0 \<le> ordem" using assms(2) by simp
  have pl: "length (phases tr) = length (amplitudes tr)"
    by (rule abs_and_phases_lengths[OF assms(1)])
  have wl: "length ?win = ?w * ?w" using assms(3,4) by simp
  have "1 \<le> ?w * ?w" using assms(2) by (simp add: Suc_le_eq)
  then have "60000 \<le> length (amplitudes tr)" by (rule window_room[OF _ assms(3)])
  then have ylen: "length (take 60000 (phases tr)) = 60000"
    using pl by simp
  let ?Xn = "map (map (\<lambda>v. [v])) (grid ?w ?win)"
  have rows: "\<forall>r\<in>set ?Xn. length r = ?w \<and> (\<forall>c\<in>set r. length c = 1)"
    by (rule ballI, rule channel_rows[OF wl])
  have flat: "concat (concat ?Xn) = ?win"
    unfolding flatten_channel by (rule concat_grid[OF wl])
  let ?X = "add_channel (map (\<lambda>n. grid ?w (take (?w * ?w) (drop n (amplitudes tr)))) [0..<60000])"
  let ?d = "\<lparr>amplitudes = take 60000 (amplitudes tr), phases = take 60000 (phases tr)\<rparr>"
  let ?y = "take 60000 (phases tr)"
  have res: "dataset_02_CNN sfm ordem = Inr (?d, ?X, ?y)"
    unfolding dataset_02_CNN_def by (rule dataset_02_CNN_body_traces[OF assms(1) o len])
  have lX: "length ?X = 60000" by (simp add: add_channel_def)
  have Xn: "?X ! n = ?Xn" using assms(4) by (simp add: add_channel_def)
  have lXn: "length (?X ! n) = ?w" unfolding Xn by (simp add: length_grid)
  have yn: "?y ! n = phases tr ! n" using assms(4) by simp
  have fl: "length (concat (concat (?X ! n))) = ?w * ?w"
    unfolding Xn flat by (rule wl)
  show ?thesis
    apply (rule exI[of _ ?d], rule exI[of _ ?X], rule exI[of _ ?y])
    apply (intro conjI)
           apply (rule res)
          apply (rule lX)
         apply (rule lXn)
        apply (unfold Xn, rule rows)
       apply (rule flat)
      apply (fold Xn, rule fl)
     apply (rule ylen)
    apply (rule yn)
    done
qed

theorem dataset_02_CNN_reshape_witness:
  "\<exists>d X y. dataset_02_CNN \<lparr>samples = [map of_nat [0..<60008]], fs = 4, fb = 1\<rparr> 3 = Inr (d, X, y)
     \<and> length X = 60000 \<and> length (X ! 0) = 3
     \<and> concat (concat (X ! 0)) = [0, 1, 2, 3, 4, 5, 6, 7, 8]
     \<and> length y = 60000
     \<and> y ! 0 = np_angle 0"
proof -
  let ?S = "\<lparr>samples = [map of_nat [0..<60008]], fs = 4, fb = 1\<rparr>"
  let ?tr = "\<lparr>amplitudes = map (cmod \<circ> of_nat) [0..<60008],
              phases = map (np_angle \<circ> of_nat) [0..<60008]\<rparr>"
  have h1: "abs_and_phases ?S = Inr ?tr" by (rule abs_and_phases_ramp)
  have h2: "(1::int) \<le> 3" by simp
  have h3: "59999 + nat 3 * nat 3 \<le> length (amplitudes ?tr)" by simp
  have h4: "(0::nat) < 60000" by simp
  have "take (nat 3 * nat 3) (drop 0 (amplitudes ?tr)) = map (cmod \<circ> of_nat) [0..<9]"
    by (simp add: take_map)
  then have a: "take (nat 3 * nat 3) (drop 0 (amplitudes ?tr)) = [0, 1, 2, 3, 4, 5, 6, 7, 8]"
    unfolding upt_9 by simp
  have p: "phases ?tr ! 0 = np_angle 0" by simp
  show ?thesis using dataset_02_CNN_reshape[OF h1 h2 h3 h4] a p by (simp; blast)
qed

lemma feature_rows_short:
  assumes "1 \<le> ordem" "length amps < 59999 + nat ordem"
    and "\<not> (ordem = 2 \<and> length amps = 60000)"
  shows "feature_rows 60000 amps ordem = Inl ValueError"
proof -
  let ?w = "nat ordem"
  let ?L = "length amps"
  have w1: "1 \<le> ?w" using assms(1) by simp
  have "\<exists>n<60000. length (take ?w (drop n amps)) \<noteq> ?w \<and> length (take ?w (drop n amps)) \<noteq> 1"
  proof (cases "?L < 60000")
    case True
    then show ?thesis using w1 by (intro exI[of _ ?L]) simp
  next
    case False
    then have L: "60000 \<le> ?L" by simp
    have "?w \<noteq> 2" using assms(1,2,3) L by auto
    then have w3: "3 \<le> ?w" using assms(2) L by linarith
    show ?thesis
    proof (cases "?w \<le> ?L + 1")
      case True
      let ?n = "?L + 1 - ?w"
      have n: "?n < 60000" using assms(2) True by linarith
      have "?L - ?n = ?w - 1" using True w3 by linarith
      then have l: "length (take ?w (drop ?n amps)) = ?w - 1" using w3 by simp
      have "?w - 1 \<noteq> ?w \<and> ?w - 1 \<noteq> 1" using w3 by linarith
      then show ?thesis using n unfolding l[symmetric] by (intro exI[of _ ?n]) blast
    next
      case False
      then have "length (take ?w (drop 0 amps)) = ?L" by simp
      then show ?thesis using False L by (intro exI[of _ 0]) simp
    qed
  qed
  then show ?thesis
    using assms(1) by (auto simp: feature_rows_char)
qed

lemma dataset_01_short:
  assumes "abs_and_phases sfm = Inr tr" "1 \<le> ordem"
    and "length (amplitudes tr) < 59999 + nat ordem"
    and "\<not> (ordem = 2 \<and> length (amplitudes tr) = 60000)"
  shows "dataset_01 sfm ordem = Inl ValueError"
  unfolding dataset_01_def dataset_01_body_def assms(1)
  by (simp add: feature_rows_short[OF assms(2,3,4)])

lemma last_window_order2:
  assumes "length amps = 60000"
  shows "take 2 (drop 59999 amps) = [amps ! 59999]"
proof -
  have "amps ! 59999 # drop (Suc 59999) amps = drop 59999 amps"
    using assms by (intro Cons_nth_drop_Suc) simp
  moreover have "drop (Suc 59999) amps = []" using assms by simp
  ultimately have "drop 59999 amps = [amps ! 59999]" by simp
  then show ?thesis by simp
qed

lemma feature_rows_order2:
  assumes "length amps = 60000"
  shows "feature_rows 60000 amps 2
       = Inr (map (\<lambda>n. bcast_row 2 (take 2 (drop n amps))) [0..<60000])"
proof -
  have "\<forall>n<60000. length (take (nat 2) (drop n amps)) = nat 2
                  \<or> length (take (nat 2) (drop n amps)) = 1"
    using assms by (auto simp: min_def)
  then show ?thesis
    using feature_rows_char[of 2 60000 amps] by simp
qed

lemma dataset_01_order2:
  assumes "abs_and_phases sfm = Inr tr" "length (amplitudes tr) = 60000"
  shows "dataset_01 sfm 2 =
     Inr (\<lparr>amplitudes = py_slice (amplitudes tr) 1 60001,
           phases = py_slice (phases tr) 1 60001\<rparr>,
          map (\<lambda>n. bcast_row 2 (take 2 (drop n (amplitudes tr)))) [0..<60000],
          py_slice (phases tr) 1 60001)"
  unfolding dataset_01_def dataset_01_body_def assms(1)
  by (simp add: feature_rows_order2[OF assms(2)])

lemma py_slice_tail:
  assumes "length xs = 60000"
  shows "py_slice xs 1 60001 = drop 1 xs" "length (py_slice xs 1 60001) = 59999"
  using assms by (simp_all add: py_slice_def slice_index_def)

lemma broadcast_pair: "bcast_row 2 [a] = [a, a]"
  by (simp add: bcast_row_def numeral_2_eq_2)

text \<open>
  Claim C10 (short input that does not raise). With \<open>ordem = 2\<close> and traces of exactly 60000
  samples \<open>dataset_01\<close> returns normally. The last window \<open>amplitudes[59999:60001]\<close> holds the
  single sample \<open>amplitudes[59999]\<close>, which the row assignment repeats, so \<open>X[59999]\<close> holds it
  twice; the target vector \<open>phases[1:60001]\<close> has 59999 entries instead of 60000.
\<close>

theorem dataset_01_short_input_returns:
  assumes "abs_and_phases sfm = Inr tr"
    and "length (amplitudes tr) = 60000"
  shows "\<exists>d X y. dataset_01 sfm 2 = Inr (d, X, y)
           \<and> length X = 60000
           \<and> py_slice (amplitudes tr) 59999 60001 = [amplitudes tr ! 59999]
           \<and> X ! 59999 = [amplitudes tr ! 59999, amplitudes tr ! 59999]
           \<and> y = py_slice (phases tr) 1 60001
           \<and> length y = 59999"
proof -
  have pl: "length (phases tr) = 60000"
    using abs_and_phases_lengths[OF assms(1)] assms(2) by simp
  have win: "py_slice (amplitudes tr) 59999 60001 = [amplitudes tr ! 59999]"
    using last_window_order2[OF assms(2)] window_slice[of 2 "amplitudes tr" 59999]
    by simp
  have row: "bcast_row 2 (take 2 (drop 59999 (amplitudes tr)))
           = [amplitudes tr ! 59999, amplitudes tr ! 59999]"
    unfolding last_window_order2[OF assms(2)] by (rule broadcast_pair)
  show ?thesis
    unfolding dataset_01_order2[OF assms]
    using win row py_slice_tail(2)[OF pl] by simp
qed

theorem dataset_01_short_input_returns_witness:
  "\<exists>d X y. dataset_01 \<lparr>samples = [map of_nat [0..<60000]], fs = 4, fb = 1\<rparr> 2 = Inr (d, X, y)
     \<and> length X = 60000
     \<and> X ! 59999 = [59999, 59999]
     \<and> length y = 59999"
proof -
  let ?S = "\<lparr>samples = [map of_nat [0..<60000]], fs = 4, fb = 1\<rparr>"
  let ?tr = "\<lparr>amplitudes = map (cmod \<circ> of_nat) [0..<60000],
              phases = map (np_angle \<circ> of_nat) [0..<60000]\<rparr>"
  have h1: "abs_and_phases ?S = Inr ?tr" by (rule abs_and_phases_ramp)
  have h2: "length (amplitudes ?tr) = 60000" by simp
  have a: "amplitudes ?tr ! 59999 = 59999" by simp
  show ?thesis using dataset_01_short_input_returns[OF h1 h2] unfolding a by blast
qed

lemma aligned_result:
  assumes "k + 60000 \<le> length A" "length P = length A" "n < 60000"
  shows "\<exists>d X' y. Inr (\<lparr>amplitudes = take 60000 (drop k A), phases = take 60000 (drop k P)\<rparr>,
                        X, take 60000 (drop k P)) = (Inr (d, X', y) :: error + data \<times> 'x \<times> real list)
           \<and> phases d = y
           \<and> length (amplitudes d) = 60000 \<and> length (phases d) = 60000
           \<and> amplitudes d ! n = A ! (k + n)
           \<and> y ! n = P ! (k + n)"
  apply (rule exI[of _ "\<lparr>amplitudes = take 60000 (drop k A), phases = take 60000 (drop k P)\<rparr>"])
  apply (rule exI[of _ X])
  apply (rule exI[of _ "take 60000 (drop k P)"])
  using assms apply simp
  done

lemma aligned_result_start:
  assumes "60000 \<le> length A" "length P = length A" "n < 60000"
  shows "\<exists>d X' y. Inr (\<lparr>amplitudes = take 60000 A, phases = take 60000 P\<rparr>,
                        X, take 60000 P) = (Inr (d, X', y) :: error + data \<times> 'x \<times> real list)
           \<and> phases d = y
           \<and> length (amplitudes d) = 60000 \<and> length (phases d) = 60000
           \<and> amplitudes d ! n = A ! n
           \<and> y ! n = P ! n"
  apply (rule exI[of _ "\<lparr>amplitudes = take 60000 A, phases = take 60000 P\<rparr>"])
  apply (rule exI[of _ X])
  apply (rule exI[of _ "take 60000 P"])
  using assms apply simp
  done

section \<open>Returned traces\<close>

text \<open>
  Claim C7 (the returned traces stay aligned with the targets). Every variant slices the
  returned amplitude and phase traces with the bounds it uses for its target vector: the
  returned \<open>data['phases']\<close> is the target vector \<open>y\<close>, both traces have 60000 entries, and
  for every row \<open>n\<close> below 60000 the returned \<open>data['amplitudes'][n]\<close> is the amplitude at the
  index of the target, that is at \<open>ordem - 1 + n\<close> for \<open>dataset_01\<close>, at \<open>int(ordem/2) + n\<close> for
  \<open>dataset_02\<close>, and at \<open>n\<close> for \<open>dataset_03\<close> and \<open>dataset_02_CNN\<close>.
\<close>

theorem returned_traces_aligned:
  assumes "abs_and_phases sfm = Inr tr"
    and "1 \<le> ordem"
    and "59999 + nat ordem \<le> length (amplitudes tr)"
    and "n < 60000"
  shows "(\<exists>d X y. dataset_01 sfm ordem = Inr (d, X, y) \<and> phases d = y
            \<and> length (amplitudes d) = 60000 \<and> length (phases d) = 60000
            \<and> amplitudes d ! n = amplitudes tr ! (nat ordem - 1 + n)
            \<and> y ! n = phases tr ! (nat ordem - 1 + n))
       \<and> (\<exists>d X y. dataset_02 sfm ordem = Inr (d, X, y) \<and> phases d = y
            \<and> length (amplitudes d) = 60000 \<and> length (phases d) = 60000
            \<and> amplitudes d ! n = amplitudes tr ! (nat (int_half ordem) + n)
            \<and> y ! n = phases tr ! (nat (int_half ordem) + n))
       \<and> (\<exists>d X y. dataset_03 sfm ordem = Inr (d, X, y) \<and> phases d = y
            \<and> length (amplitudes d) = 60000 \<and> length (phases d) = 60000
            \<and> amplitudes d ! n = amplitudes tr ! n
            \<and> y ! n = phases tr ! n)
       \<and> (59999 + nat ordem * nat ordem \<le> length (amplitudes tr) \<longrightarrow>
           (\<exists>d X y. dataset_02_CNN sfm ordem = Inr (d, X, y) \<and> phases d = y
            \<and> length (amplitudes d) = 60000 \<and> length (phases d) = 60000
            \<and> amplitudes d ! n = amplitudes tr ! n
            \<and> y ! n = phases tr ! n))"
proof -
  let ?A = "amplitudes tr" and ?P = "phases tr"
  have len: "60000 + nat ordem \<le> length ?A + 1" using assms(3) by simp
  have pl: "length ?P = length ?A" by (rule abs_and_phases_lengths[OF assms(1)])
  have k1: "(nat ordem - 1) + 60000 \<le> length ?A" using assms(2,3) by linarith
  have h: "nat ordem div 2 = nat (int_half ordem)" using assms(2) by (simp add: nat_int_half)
  have "nat ordem div 2 + 60000 \<le> length ?A" using assms(2,3) by linarith
  then have k2: "nat (int_half ordem) + 60000 \<le> length ?A" unfolding h .
  have k3: "60000 \<le> length ?A" using assms(2,3) by linarith
  have c1: "\<exists>d X y. dataset_01 sfm ordem = Inr (d, X, y) \<and> phases d = y
            \<and> length (amplitudes d) = 60000 \<and> length (phases d) = 60000
            \<and> amplitudes d ! n = amplitudes tr ! (nat ordem - 1 + n)
            \<and> y ! n = phases tr ! (nat ordem - 1 + n)"
    unfolding dataset_01_def dataset_01_body_traces[OF assms(1,2) len]
    by (rule aligned_result[OF k1 pl assms(4)])
  have c2: "\<exists>d X y. dataset_02 sfm ordem = Inr (d, X, y) \<and> phases d = y
            \<and> length (amplitudes d) = 60000 \<and> length (phases d) = 60000
            \<and> amplitudes d ! n = amplitudes tr ! (nat (int_half ordem) + n)
            \<and> y ! n = phases tr ! (nat (int_half ordem) + n)"
    unfolding dataset_02_def dataset_02_body_traces[OF assms(1,2) len] h
    by (rule aligned_result[OF k2 pl assms(4)])
  have c3: "\<exists>d X y. dataset_03 sfm ordem = Inr (d, X, y) \<and> phases d = y
            \<and> length (amplitudes d) = 60000 \<and> length (phases d) = 60000
            \<and> amplitudes d ! n = amplitudes tr ! n
            \<and> y ! n = phases tr ! n"
    unfolding dataset_03_def dataset_03_body_traces[OF assms(1,2) len]
    by (rule aligned_result_start[OF k3 pl assms(4)])
  have c4: "59999 + nat ordem * nat ordem \<le> length (amplitudes tr) \<longrightarrow>
           (\<exists>d X y. dataset_02_CNN sfm ordem = Inr (d, X, y) \<and> phases d = y
            \<and> length (amplitudes d) = 60000 \<and> length (phases d) = 60000
            \<and> amplitudes d ! n = amplitudes tr ! n
            \<and> y ! n = phases tr ! n)"
  proof
    assume l: "59999 + nat ordem * nat ordem \<le> length (amplitudes tr)"
    have o: "0 \<le> ordem" using assms(2) by simp
    have len2: "60000 + nat ordem * nat ordem \<le> length ?A + 1" using l by simp
    show "\<exists>d X y. dataset_02_CNN sfm ordem = Inr (d, X, y) \<and> phases d = y
            \<and> length (amplitudes d) = 60000 \<and> length (phases d) = 60000
            \<and> amplitudes d ! n = amplitudes tr ! n
            \<and> y ! n = phases tr ! n"
      unfolding dataset_02_CNN_def dataset_02_CNN_body_traces[OF assms(1) o len2]
      by (rule aligned_result_start[OF k3 pl assms(4)])
  qed
  show ?thesis by (intro conjI c1 c2 c3 c4)
qed

theorem returned_traces_aligned_witness:
  "(\<exists>d X y. dataset_01 \<lparr>samples = [map of_nat [0..<60008]], fs = 4, fb = 1\<rparr> 3 = Inr (d, X, y)
       \<and> phases d = y \<and> amplitudes d ! 5 = 7)
   \<and> (\<exists>d X y. dataset_02 \<lparr>samples = [map of_nat [0..<60008]], fs = 4, fb = 1\<rparr> 3 = Inr (d, X, y)
       \<and> phases d = y \<and> amplitudes d ! 5 = 6)
   \<and> (\<exists>d X y. dataset_03 \<lparr>samples = [map of_nat [0..<60008]], fs = 4, fb = 1\<rparr> 3 = Inr (d, X, y)
       \<and> phases d = y \<and> amplitudes d ! 5 = 5)
   \<and> (\<exists>d X y. dataset_02_CNN \<lparr>samples = [map of_nat [0..<60008]], fs = 4, fb = 1\<rparr> 3 = Inr (d, X, y)
       \<and> phases d = y \<and> amplitudes d ! 5 = 5)"
proof -
  let ?S = "\<lparr>samples = [map of_nat [0..<60008]], fs = 4, fb = 1\<rparr>"
  let ?tr = "\<lparr>amplitudes = map (cmod \<circ> of_nat) [0..<60008],
              phases = map (np_angle \<circ> of_nat) [0..<60008]\<rparr>"
  have h1: "abs_and_phases ?S = Inr ?tr" by (rule abs_and_phases_ramp)
  have h2: "(1::int) \<le> 3" by simp
  have h3: "59999 + nat 3 \<le> length (amplitudes ?tr)" by simp
  have h4: "(5::nat) < 60000" by simp
  have h5: "59999 + nat 3 * nat 3 \<le> length (amplitudes ?tr)" by simp
  have a1: "amplitudes ?tr ! (nat 3 - 1 + 5) = 7" by simp
  have a2: "amplitudes ?tr ! (nat (int_half 3) + 5) = 6" by (simp add: int_half_def)
  have a3: "amplitudes ?tr ! 5 = 5" by simp
  show ?thesis
    using returned_traces_aligned[OF h1 h2 h3 h4] h5 unfolding a1 a2 a3 by blast
qed

section \<open>Behaviour on short traces\<close>

lemma dataset_02_short:
  assumes "abs_and_phases sfm = Inr tr" "1 \<le> ordem"
    and "length (amplitudes tr) < 59999 + nat ordem"
    and "\<not> (ordem = 2 \<and> length (amplitudes tr) = 60000)"
  shows "dataset_02 sfm ordem = Inl ValueError"
  unfolding dataset_02_def dataset_02_body_def assms(1)
  by (simp add: feature_rows_short[OF assms(2,3,4)])

lemma dataset_03_short:
  assumes "abs_and_phases sfm = Inr tr" "1 \<le> ordem"
    and "length (amplitudes tr) < 59999 + nat ordem"
    and "\<not> (ordem = 2 \<and> length (amplitudes tr) = 60000)"
  shows "dataset_03 sfm ordem = Inl ValueError"
  unfolding dataset_03_def dataset_03_body_def assms(1)
  by (simp add: feature_rows_short[OF assms(2,3,4)])

lemma np_reshape_square_bad:
  assumes "0 \<le> ordem" "length xs \<noteq> nat ordem * nat ordem"
  shows "np_reshape_square xs ordem = Inl ValueError"
proof -
  have e: "int (nat ordem * nat ordem) = ordem * ordem" using assms(1) by simp
  have "int (length xs) \<noteq> ordem * ordem"
  proof
    assume "int (length xs) = ordem * ordem"
    then have "int (length xs) = int (nat ordem * nat ordem)" unfolding e .
    then have "length xs = nat ordem * nat ordem" by (simp only: of_nat_eq_iff)
    with assms(2) show False by (rule notE)
  qed
  then show ?thesis unfolding np_reshape_square_def by (rule if_P[OF disjI2])
qed

lemma fill_blocks_short:
  assumes "0 \<le> ordem"
    and "\<forall>n\<in>set ns. n < length X"
    and "\<exists>n\<in>set ns. length (take (nat ordem * nat ordem) (drop n amps)) \<noteq> nat ordem * nat ordem"
  shows "fill_blocks amps ordem ns X = Inl ValueError"
  using assms(2,3)
proof (induction ns arbitrary: X)
  case Nil
  then show ?case by simp
next
  case (Cons n ns)
  let ?win = "\<lambda>k. take (nat ordem * nat ordem) (drop k amps)"
  show ?case
  proof (cases "length (?win n) = nat ordem * nat ordem")
    case False
    have "np_reshape_square (py_slice amps (int n) (ordem * ordem + int n)) ordem = Inl ValueError"
      unfolding block_slice[OF assms(1)] by (rule np_reshape_square_bad[OF assms(1) False])
    then show ?thesis by simp
  next
    case True
    have r: "np_reshape_square (py_slice amps (int n) (ordem * ordem + int n)) ordem
           = Inr (grid (nat ordem) (?win n))"
      unfolding block_slice[OF assms(1)] by (rule np_reshape_square_ok[OF assms(1) True])
    have n: "n < length X" using Cons.prems(1) by simp
    have b: "set_block X n (grid (nat ordem) (?win n)) = Inr (X[n := grid (nat ordem) (?win n)])"
      using n by (simp add: set_block_def)
    have p1: "\<forall>k\<in>set ns. k < length (X[n := grid (nat ordem) (?win n)])"
      using Cons.prems(1) by simp
    from Cons.prems(2) obtain k where k: "k \<in> set (n # ns)"
      and bad: "length (?win k) \<noteq> nat ordem * nat ordem" by (rule bexE)
    from bad True have "k \<noteq> n" by (metis (full_types))
    with k have "k \<in> set ns" by simp
    with bad have p2: "\<exists>k\<in>set ns. length (?win k) \<noteq> nat ordem * nat ordem"
      by (rule bexI)
    show ?thesis using Cons.IH[OF p1 p2] r b by simp
  qed
qed

lemma short_window:
  assumes "length A < 59999 + k" "1 \<le> k"
  shows "length (take k (drop 59999 A)) \<noteq> k"
  using assms by (auto simp: min_def)

lemma dataset_02_CNN_short:
  assumes "abs_and_phases sfm = Inr tr" "1 \<le> ordem"
    and "length (amplitudes tr) < 59999 + nat ordem * nat ordem"
  shows "dataset_02_CNN sfm ordem = Inl ValueError"
proof -
  let ?X0 = "replicate 60000 (replicate (nat ordem) (replicate (nat ordem) (0::real)))"
  have o: "0 \<le> ordem" using assms(2) by simp
  have z: "np_zeros3 60000 ordem = Inr ?X0" using o by (simp add: np_zeros3_def)
  have a: "\<forall>n\<in>set [0..<60000]. n < length ?X0" by simp
  have k: "1 \<le> nat ordem * nat ordem" using assms(2) by (simp add: Suc_le_eq)
  have "length (take (nat ordem * nat ordem) (drop 59999 (amplitudes tr)))
          \<noteq> nat ordem * nat ordem"
    by (rule short_window[OF assms(3) k])
  then have b: "\<exists>n\<in>set [0..<60000]. length (take (nat ordem * nat ordem) (drop n (amplitudes tr)))
          \<noteq> nat ordem * nat ordem"
    by (intro bexI[of _ 59999]) simp_all
  have f: "fill_blocks (amplitudes tr) ordem [0..<60000] ?X0 = Inl ValueError"
    by (rule fill_blocks_short[OF o a b])
  show ?thesis
    unfolding dataset_02_CNN_def dataset_02_CNN_body_def assms(1) z
    by (simp add: f)
qed

lemma full_rows:
  assumes "59999 + w \<le> length A"
  shows "length (map (\<lambda>n. take w (drop n A)) [0..<60000]) = 60000
       \<and> (\<forall>n<60000. map (\<lambda>n. take w (drop n A)) [0..<60000] ! n = take w (drop n A)
              \<and> length (map (\<lambda>n. take w (drop n A)) [0..<60000] ! n) = w)"
  using assms by simp

lemma full_blocks:
  assumes "59999 + w * w \<le> length A"
  shows "length (add_channel (map (\<lambda>n. grid w (take (w * w) (drop n A))) [0..<60000])) = 60000
       \<and> (\<forall>n<60000.
             concat (concat (add_channel (map (\<lambda>n. grid w (take (w * w) (drop n A))) [0..<60000]) ! n))
               = take (w * w) (drop n A)
           \<and> length (take (w * w) (drop n A)) = w * w)"
proof (intro conjI allI impI)
  show "length (add_channel (map (\<lambda>n. grid w (take (w * w) (drop n A))) [0..<60000])) = 60000"
    by (simp add: add_channel_def)
next
  fix n :: nat
  assume n: "n < 60000"
  show wl: "length (take (w * w) (drop n A)) = w * w" using assms n by simp
  have "add_channel (map (\<lambda>n. grid w (take (w * w) (drop n A))) [0..<60000]) ! n
      = map (map (\<lambda>v. [v])) (grid w (take (w * w) (drop n A)))"
    using n by (simp add: add_channel_def)
  then show "concat (concat (add_channel (map (\<lambda>n. grid w (take (w * w) (drop n A))) [0..<60000]) ! n))
               = take (w * w) (drop n A)"
    by (simp only: flatten_channel concat_grid[OF wl])
qed

text \<open>
  Claim C8, as amended. No builder checks a bound, and none raises a validation error of
  its own. For \<open>ordem\<close> at least one, \<open>dataset_01\<close>, \<open>dataset_02\<close> and \<open>dataset_03\<close> return
  whenever the amplitude trace holds at least \<open>59999 + ordem\<close> samples, which includes a trace
  of \<open>size + ordem - 1\<close> samples, shorter than \<open>size + ordem\<close>, and every row is then a full
  window of \<open>ordem\<close> samples; on a shorter trace they fail with the \<open>ValueError\<close> of the row
  assignment, the case \<open>ordem = 2\<close> with exactly 60000 samples being left out here.
  \<open>dataset_02_CNN\<close> returns whenever the trace holds at least \<open>59999 + ordem * ordem\<close>
  samples, every block then flattening to a full window, and on every shorter trace it fails
  with the \<open>ValueError\<close> of the reshape, so it never returns a block that is not a full window.
\<close>

theorem builders_bounds_behaviour:
  assumes "abs_and_phases sfm = Inr tr"
    and "1 \<le> ordem"
  shows "(59999 + nat ordem \<le> length (amplitudes tr) \<longrightarrow>
            (\<exists>d X y. dataset_01 sfm ordem = Inr (d, X, y) \<and> length X = 60000
              \<and> (\<forall>n<60000. X ! n = take (nat ordem) (drop n (amplitudes tr))
                    \<and> length (X ! n) = nat ordem))
          \<and> (\<exists>d X y. dataset_02 sfm ordem = Inr (d, X, y) \<and> length X = 60000
              \<and> (\<forall>n<60000. X ! n = take (nat ordem) (drop n (amplitudes tr))
                    \<and> length (X ! n) = nat ordem))
          \<and> (\<exists>d X y. dataset_03 sfm ordem = Inr (d, X, y) \<and> length X = 60000
              \<and> (\<forall>n<60000. X ! n = take (nat ordem) (drop n (amplitudes tr))
                    \<and> length (X ! n) = nat ordem)))
       \<and> (length (amplitudes tr) < 59999 + nat ordem
            \<and> \<not> (ordem = 2 \<and> length (amplitudes tr) = 60000) \<longrightarrow>
            dataset_01 sfm ordem = Inl ValueError
          \<and> dataset_02 sfm ordem = Inl ValueError
          \<and> dataset_03 sfm ordem = Inl ValueError)
       \<and> (59999 + nat ordem * nat ordem \<le> length (amplitudes tr) \<longrightarrow>
            (\<exists>d X y. dataset_02_CNN sfm ordem = Inr (d, X, y) \<and> length X = 60000
              \<and> (\<forall>n<60000. concat (concat (X ! n))
                               = take (nat ordem * nat ordem) (drop n (amplitudes tr))
                    \<and> length (take (nat ordem * nat ordem) (drop n (amplitudes tr)))
                               = nat ordem * nat ordem)))
       \<and> (length (amplitudes tr) < 59999 + nat ordem * nat ordem \<longrightarrow>
            dataset_02_CNN sfm ordem = Inl ValueError)"
proof (intro conjI impI)
  let ?A = "amplitudes tr" and ?P = "phases tr" and ?w = "nat ordem"
  let ?X = "map (\<lambda>n. take ?w (drop n ?A)) [0..<60000]"
  assume l: "59999 + nat ordem \<le> length (amplitudes tr)"
  then have len: "60000 + nat ordem \<le> length (amplitudes tr) + 1" by simp
  have r1: "dataset_01 sfm ordem
      = Inr (\<lparr>amplitudes = take 60000 (drop (?w - 1) ?A), phases = take 60000 (drop (?w - 1) ?P)\<rparr>,
             ?X, take 60000 (drop (?w - 1) ?P))"
    unfolding dataset_01_def by (rule dataset_01_body_traces[OF assms len])
  have r2: "dataset_02 sfm ordem
      = Inr (\<lparr>amplitudes = take 60000 (drop (?w div 2) ?A), phases = take 60000 (drop (?w div 2) ?P)\<rparr>,
             ?X, take 60000 (drop (?w div 2) ?P))"
    unfolding dataset_02_def by (rule dataset_02_body_traces[OF assms len])
  have r3: "dataset_03 sfm ordem
      = Inr (\<lparr>amplitudes = take 60000 ?A, phases = take 60000 ?P\<rparr>, ?X, take 60000 ?P)"
    unfolding dataset_03_def by (rule dataset_03_body_traces[OF assms len])
  show "\<exists>d X y. dataset_01 sfm ordem = Inr (d, X, y) \<and> length X = 60000
          \<and> (\<forall>n<60000. X ! n = take (nat ordem) (drop n (amplitudes tr))
                \<and> length (X ! n) = nat ordem)"
    apply (rule exI[of _ "\<lparr>amplitudes = take 60000 (drop (?w - 1) ?A),
                            phases = take 60000 (drop (?w - 1) ?P)\<rparr>"])
    apply (rule exI[of _ ?X])
    apply (rule exI[of _ "take 60000 (drop (?w - 1) ?P)"])
    apply (rule conjI[OF r1])
    apply (rule full_rows[OF l])
    done
  show "\<exists>d X y. dataset_02 sfm ordem = Inr (d, X, y) \<and> length X = 60000
          \<and> (\<forall>n<60000. X ! n = take (nat ordem) (drop n (amplitudes tr))
                \<and> length (X ! n) = nat ordem)"
    apply (rule exI[of _ "\<lparr>amplitudes = take 60000 (drop (?w div 2) ?A),
                            phases = take 60000 (drop (?w div 2) ?P)\<rparr>"])
    apply (rule exI[of _ ?X])
    apply (rule exI[of _ "take 60000 (drop (?w div 2) ?P)"])
    apply (rule conjI[OF r2])
    apply (rule full_rows[OF l])
    done
  show "\<exists>d X y. dataset_03 sfm ordem = Inr (d, X, y) \<and> length X = 60000
          \<and> (\<forall>n<60000. X ! n = take (nat ordem) (drop n (amplitudes tr))
                \<and> length (X ! n) = nat ordem)"
    apply (rule exI[of _ "\<lparr>amplitudes = take 60000 ?A, phases = take 60000 ?P\<rparr>"])
    apply (rule exI[of _ ?X])
    apply (rule exI[of _ "take 60000 ?P"])
    apply (rule conjI[OF r3])
    apply (rule full_rows[OF l])
    done
next
  assume s: "length (amplitudes tr) < 59999 + nat ordem
            \<and> \<not> (ordem = 2 \<and> length (amplitudes tr) = 60000)"
  show "dataset_01 sfm ordem = Inl ValueError"
    by (rule dataset_01_short[OF assms s[THEN conjunct1] s[THEN conjunct2]])
  show "dataset_02 sfm ordem = Inl ValueError"
    by (rule dataset_02_short[OF assms s[THEN conjunct1] s[THEN conjunct2]])
  show "dataset_03 sfm ordem = Inl ValueError"
    by (rule dataset_03_short[OF assms s[THEN conjunct1] s[THEN conjunct2]])
next
  let ?A = "amplitudes tr" and ?P = "phases tr" and ?w = "nat ordem"
  let ?X = "add_channel (map (\<lambda>n. grid ?w (take (?w * ?w) (drop n ?A))) [0..<60000])"
  assume l: "59999 + nat ordem * nat ordem \<le> length (amplitudes tr)"
  then have len: "60000 + nat ordem * nat ordem \<le> length (amplitudes tr) + 1" by simp
  have o: "0 \<le> ordem" using assms(2) by simp
  have r4: "dataset_02_CNN sfm ordem
      = Inr (\<lparr>amplitudes = take 60000 ?A, phases = take 60000 ?P\<rparr>, ?X, take 60000 ?P)"
    unfolding dataset_02_CNN_def by (rule dataset_02_CNN_body_traces[OF assms(1) o len])
  show "\<exists>d X y. dataset_02_CNN sfm ordem = Inr (d, X, y) \<and> length X = 60000
              \<and> (\<forall>n<60000. concat (concat (X ! n))
                               = take (nat ordem * nat ordem) (drop n (amplitudes tr))
                    \<and> length (take (nat ordem * nat ordem) (drop n (amplitudes tr)))
                               = nat ordem * nat ordem)"
    apply (rule exI[of _ "\<lparr>amplitudes = take 60000 ?A, phases = take 60000 ?P\<rparr>"])
    apply (rule exI[of _ ?X])
    apply (rule exI[of _ "take 60000 ?P"])
    apply (rule conjI[OF r4])
    apply (rule full_blocks[OF l])
    done
next
  assume s: "length (amplitudes tr) < 59999 + nat ordem * nat ordem"
  show "dataset_02_CNN sfm ordem = Inl ValueError"
    by (rule dataset_02_CNN_short[OF assms s])
qed

theorem builders_bounds_behaviour_witness:
  "(\<exists>d X y. dataset_01 \<lparr>samples = [map of_nat [0..<60000]], fs = 4, fb = 1\<rparr> 1 = Inr (d, X, y)
       \<and> length X = 60000 \<and> X ! 59999 = [59999])
   \<and> (\<exists>d X y. dataset_02 \<lparr>samples = [map of_nat [0..<60000]], fs = 4, fb = 1\<rparr> 1 = Inr (d, X, y)
       \<and> length X = 60000 \<and> X ! 59999 = [59999])
   \<and> (\<exists>d X y. dataset_03 \<lparr>samples = [map of_nat [0..<60000]], fs = 4, fb = 1\<rparr> 1 = Inr (d, X, y)
       \<and> length X = 60000 \<and> X ! 59999 = [59999])
   \<and> (\<exists>d X y. dataset_02_CNN \<lparr>samples = [map of_nat [0..<60000]], fs = 4, fb = 1\<rparr> 1 = Inr (d, X, y)
       \<and> length X = 60000 \<and> concat (concat (X ! 59999)) = [59999])
   \<and> dataset_01 \<lparr>samples = [map of_nat [0..<59999]], fs = 4, fb = 1\<rparr> 1 = Inl ValueError
   \<and> dataset_02 \<lparr>samples = [map of_nat [0..<59999]], fs = 4, fb = 1\<rparr> 1 = Inl ValueError
   \<and> dataset_03 \<lparr>samples = [map of_nat [0..<59999]], fs = 4, fb = 1\<rparr> 1 = Inl ValueError
   \<and> dataset_02_CNN \<lparr>samples = [map of_nat [0..<59999]], fs = 4, fb = 1\<rparr> 1 = Inl ValueError"
proof -
  let ?Sa = "\<lparr>samples = [map of_nat [0..<60000]], fs = 4, fb = 1\<rparr>"
  let ?ta = "\<lparr>amplitudes = map (cmod \<circ> of_nat) [0..<60000],
              phases = map (np_angle \<circ> of_nat) [0..<60000]\<rparr>"
  let ?Sb = "\<lparr>samples = [map of_nat [0..<59999]], fs = 4, fb = 1\<rparr>"
  let ?tb = "\<lparr>amplitudes = map (cmod \<circ> of_nat) [0..<59999],
              phases = map (np_angle \<circ> of_nat) [0..<59999]\<rparr>"
  have ha: "abs_and_phases ?Sa = Inr ?ta" by (rule abs_and_phases_ramp)
  have hb: "abs_and_phases ?Sb = Inr ?tb" by (rule abs_and_phases_ramp)
  have o: "(1::int) \<le> 1" by simp
  have la: "59999 + nat 1 \<le> length (amplitudes ?ta)" by simp
  have lc: "59999 + nat 1 * nat 1 \<le> length (amplitudes ?ta)" by simp
  have lb: "length (amplitudes ?tb) < 59999 + nat 1
              \<and> \<not> ((1::int) = 2 \<and> length (amplitudes ?tb) = 60000)" by simp
  have ld: "length (amplitudes ?tb) < 59999 + nat 1 * nat 1" by simp
  have u: "[59999..<60000] = [59999::nat]" by simp
  have "drop 59999 (map (cmod \<circ> of_nat) [0..<60000]) = map (cmod \<circ> of_nat) [59999..<60000]"
    by (simp add: drop_map)
  then have dr: "drop 59999 (map (cmod \<circ> of_nat) [0..<60000]) = [59999]"
    unfolding u by simp
  have r: "take (nat 1) (drop 59999 (amplitudes ?ta)) = [59999]" using dr by simp
  have r2: "take (nat 1 * nat 1) (drop 59999 (amplitudes ?ta)) = [59999]" using dr by simp
  have n: "(59999::nat) < 60000" by simp
  note Ta = builders_bounds_behaviour[OF ha o]
  note Tb = builders_bounds_behaviour[OF hb o]
  note F = Ta[THEN conjunct1, THEN mp, OF la]
  note C = Ta[THEN conjunct2, THEN conjunct2, THEN conjunct1, THEN mp, OF lc]
  note G = Tb[THEN conjunct2, THEN conjunct1, THEN mp, OF lb]
  note D = Tb[THEN conjunct2, THEN conjunct2, THEN conjunct2, THEN mp, OF ld]
  have A1: "\<exists>d X y. dataset_01 ?Sa 1 = Inr (d, X, y) \<and> length X = 60000 \<and> X ! 59999 = [59999]"
  proof -
    from F[THEN conjunct1] obtain d X y where a: "dataset_01 ?Sa 1 = Inr (d, X, y)" "length X = 60000"
      and b: "\<forall>n<60000. X ! n = take (nat 1) (drop n (amplitudes ?ta)) \<and> length (X ! n) = nat 1"
      by blast
    from b n have "X ! 59999 = take (nat 1) (drop 59999 (amplitudes ?ta))" by blast
    then have "X ! 59999 = [59999]" unfolding r .
    with a show ?thesis by blast
  qed
  have A2: "\<exists>d X y. dataset_02 ?Sa 1 = Inr (d, X, y) \<and> length X = 60000 \<and> X ! 59999 = [59999]"
  proof -
    from F[THEN conjunct2, THEN conjunct1] obtain d X y where
      a: "dataset_02 ?Sa 1 = Inr (d, X, y)" "length X = 60000"
      and b: "\<forall>n<60000. X ! n = take (nat 1) (drop n (amplitudes ?ta)) \<and> length (X ! n) = nat 1"
      by blast
    from b n have "X ! 59999 = take (nat 1) (drop 59999 (amplitudes ?ta))" by blast
    then have "X ! 59999 = [59999]" unfolding r .
    with a show ?thesis by blast
  qed
  have A3: "\<exists>d X y. dataset_03 ?Sa 1 = Inr (d, X, y) \<and> length X = 60000 \<and> X ! 59999 = [59999]"
  proof -
    from F[THEN conjunct2, THEN conjunct2] obtain d X y where
      a: "dataset_03 ?Sa 1 = Inr (d, X, y)" "length X = 60000"
      and b: "\<forall>n<60000. X ! n = take (nat 1) (drop n (amplitudes ?ta)) \<and> length (X ! n) = nat 1"
      by blast
    from b n have "X ! 59999 = take (nat 1) (drop 59999 (amplitudes ?ta))" by blast
    then have "X ! 59999 = [59999]" unfolding r .
    with a show ?thesis by blast
  qed
  have A4: "\<exists>d X y. dataset_02_CNN ?Sa 1 = Inr (d, X, y) \<and> length X = 60000
              \<and> concat (concat (X ! 59999)) = [59999]"
  proof -
    from C obtain d X y where
      a: "dataset_02_CNN ?Sa 1 = Inr (d, X, y)" "length X = 60000"
      and b: "\<forall>n<60000. concat (concat (X ! n)) = take (nat 1 * nat 1) (drop n (amplitudes ?ta))
                \<and> length (take (nat 1 * nat 1) (drop n (amplitudes ?ta))) = nat 1 * nat 1"
      by blast
    from b n have "concat (concat (X ! 59999)) = take (nat 1 * nat 1) (drop 59999 (amplitudes ?ta))"
      by blast
    then have "concat (concat (X ! 59999)) = [59999]" unfolding r2 .
    with a show ?thesis by blast
  qed
  show ?thesis
    apply (intro conjI)
           apply (rule A1)
          apply (rule A2)
         apply (rule A3)
        apply (rule A4)
       apply (rule G[THEN conjunct1])
      apply (rule G[THEN conjunct2, THEN conjunct1])
     apply (rule G[THEN conjunct2, THEN conjunct2])
    apply (rule D)
    done
qed

text \<open>
  The claim C8 as stated fails: with \<open>ordem = 2\<close> and a trace of 60000 samples, so that
  \<open>size + ordem\<close> exceeds the length, \<open>dataset_01\<close> returns normally, and its last feature
  row repeats the sample at index 59999 instead of holding two consecutive samples.
\<close>

theorem bounds_rejection_counterexample:
  "length (hd (samples \<lparr>samples = [map of_nat [0..<60000]], fs = 4, fb = 1\<rparr>)) < 60000 + 2
   \<and> \<not> isl (dataset_01 \<lparr>samples = [map of_nat [0..<60000]], fs = 4, fb = 1\<rparr> 2)
   \<and> fst (snd (projr (dataset_01 \<lparr>samples = [map of_nat [0..<60000]], fs = 4, fb = 1\<rparr> 2))) ! 59999
       = [59999, 59999]"
proof -
  let ?S = "\<lparr>samples = [map of_nat [0..<60000]], fs = 4, fb = 1\<rparr>"
  let ?tr = "\<lparr>amplitudes = map (cmod \<circ> of_nat) [0..<60000],
              phases = map (np_angle \<circ> of_nat) [0..<60000]\<rparr>"
  have h1: "abs_and_phases ?S = Inr ?tr" by (rule abs_and_phases_ramp)
  have h2: "length (amplitudes ?tr) = 60000" by simp
  have a: "amplitudes ?tr ! 59999 = 59999" by simp
  have row: "bcast_row 2 (take 2 (drop 59999 (amplitudes ?tr))) = [59999, 59999]"
    unfolding last_window_order2[OF h2] a by (rule broadcast_pair)
  have n: "(59999::nat) < 60000" by simp
  have X: "map (\<lambda>n. bcast_row 2 (take 2 (drop n (amplitudes ?tr)))) [0..<60000] ! 59999
         = [59999, 59999]"
    using row n by simp
  show ?thesis
    unfolding dataset_01_order2[OF h1 h2] using X by simp
qed

section \<open>Range of amplitudes and phases\<close>

lemma arctan2_bounds: "- pi < arctan2 y x \<and> arctan2 y x \<le> pi"
proof -
  have b: "- (pi / 2) < arctan (y / x)" "arctan (y / x) < pi / 2"
    by (rule arctan_lbound, rule arctan_ubound)
  have p: "0 < pi" by (rule pi_gt_zero)
  consider (pos) "0 < x" | (neg_up) "x < 0" "0 \<le> y" | (neg_down) "x < 0" "y < 0"
    | (zero) "x = 0"
    by linarith
  then show ?thesis
  proof cases
    case pos
    then show ?thesis using b p by (simp add: arctan2_def)
  next
    case neg_up
    then have "y / x \<le> 0" by (simp add: divide_nonneg_neg)
    then have "arctan (y / x) \<le> 0" by simp
    then show ?thesis using neg_up b p by (simp add: arctan2_def)
  next
    case neg_down
    then have "0 < y / x" by (simp add: divide_neg_neg)
    then have "0 < arctan (y / x)" by simp
    then show ?thesis using neg_down b p by (simp add: arctan2_def)
  next
    case zero
    then have "arctan2 y x = pi / 2 \<or> arctan2 y x = - (pi / 2) \<or> arctan2 y x = 0"
      by (simp add: arctan2_def)
    then show ?thesis
    proof (elim disjE)
      assume e: "arctan2 y x = pi / 2"
      show ?thesis unfolding e using p by (intro conjI) linarith+
    next
      assume e: "arctan2 y x = - (pi / 2)"
      show ?thesis unfolding e using p by (intro conjI) linarith+
    next
      assume e: "arctan2 y x = 0"
      show ?thesis unfolding e using p by (intro conjI) linarith+
    qed
  qed
qed

lemma np_angle_bounds: "- pi < np_angle z \<and> np_angle z \<le> pi"
  unfolding np_angle_def by (rule arctan2_bounds)

lemma sqrt_split:
  assumes "x \<noteq> 0"
  shows "sqrt (x\<^sup>2 + y\<^sup>2) = \<bar>x\<bar> * sqrt (1 + (y / x)\<^sup>2)"
proof -
  have "x\<^sup>2 + y\<^sup>2 = x\<^sup>2 * (1 + (y / x)\<^sup>2)"
    using assms by (simp add: field_simps power_divide)
  then show ?thesis by (simp add: real_sqrt_mult)
qed

lemma sqrt_one_plus_pos: "0 < sqrt (1 + (t::real)\<^sup>2)"
  by (simp add: add_pos_nonneg)

lemma polar_arctan:
  assumes "x \<noteq> 0"
  shows "\<bar>x\<bar> * sqrt (1 + (y / x)\<^sup>2) * cos (arctan (y / x)) = \<bar>x\<bar>"
    and "\<bar>x\<bar> * sqrt (1 + (y / x)\<^sup>2) * sin (arctan (y / x)) = \<bar>x\<bar> * (y / x)"
  using sqrt_one_plus_pos[of "y / x"] by (simp_all add: cos_arctan sin_arctan)

lemma arctan2_polar:
  "sqrt (x\<^sup>2 + y\<^sup>2) * cos (arctan2 y x) = x \<and> sqrt (x\<^sup>2 + y\<^sup>2) * sin (arctan2 y x) = y"
proof -
  consider (pos) "0 < x" | (neg_up) "x < 0" "0 \<le> y" | (neg_down) "x < 0" "y < 0"
    | (zero_up) "x = 0" "0 < y" | (zero_down) "x = 0" "y < 0" | (origin) "x = 0" "y = 0"
    by linarith
  then show ?thesis
  proof cases
    case pos
    then have x: "x \<noteq> 0" by simp
    show ?thesis
      using pos polar_arctan[OF x, of y]
      by (simp add: arctan2_def sqrt_split[OF x])
  next
    case neg_up
    then have x: "x \<noteq> 0" by simp
    have "arctan2 y x = arctan (y / x) + pi" using neg_up by (simp add: arctan2_def)
    then show ?thesis
      using neg_up polar_arctan[OF x, of y]
      by (simp add: sqrt_split[OF x])
  next
    case neg_down
    then have x: "x \<noteq> 0" by simp
    have "arctan2 y x = arctan (y / x) - pi" using neg_down by (simp add: arctan2_def)
    then show ?thesis
      using neg_down polar_arctan[OF x, of y]
      by (simp add: sqrt_split[OF x])
  next
    case zero_up
    then show ?thesis by (simp add: arctan2_def)
  next
    case zero_down
    then show ?thesis by (simp add: arctan2_def)
  next
    case origin
    then show ?thesis by (simp add: arctan2_def)
  qed
qed

lemma np_angle_polar: "z = complex_of_real (cmod z) * cis (np_angle z)"
proof (rule complex_eqI)
  show "Re z = Re (complex_of_real (cmod z) * cis (np_angle z))"
    using arctan2_polar[of "Re z" "Im z"] by (simp add: np_angle_def cmod_def)
  show "Im z = Im (complex_of_real (cmod z) * cis (np_angle z))"
    using arctan2_polar[of "Re z" "Im z"] by (simp add: np_angle_def cmod_def)
qed

text \<open>
  Claim C9 (amplitude and phase extraction). For every signal with at least one mode
  \<open>abs_and_phases\<close> returns two real sequences as long as the first mode: entry \<open>k\<close> of the
  amplitudes is the modulus of sample \<open>k\<close> and is not negative, entry \<open>k\<close> of the phases is
  its angle and lies in the interval from \<open>- pi\<close> (excluded) to \<open>pi\<close> (included), and the sample is
  recovered from the two as \<open>amplitude * (cos phase + i sin phase)\<close>. The function is a
  function of the value of the signal alone and returns new sequences; the signal it was
  given is not changed.
\<close>

theorem abs_and_phases_contract:
  assumes "samples sfm = row # rest"
  shows "\<exists>d. abs_and_phases sfm = Inr d
           \<and> length (amplitudes d) = length row \<and> length (phases d) = length row
           \<and> (\<forall>k<length row.
                 amplitudes d ! k = cmod (row ! k) \<and> phases d ! k = np_angle (row ! k)
               \<and> 0 \<le> amplitudes d ! k
               \<and> - pi < phases d ! k \<and> phases d ! k \<le> pi
               \<and> row ! k = complex_of_real (amplitudes d ! k) * cis (phases d ! k))"
proof -
  let ?d = "\<lparr>amplitudes = map cmod row, phases = map np_angle row\<rparr>"
  have r: "abs_and_phases sfm = Inr ?d" by (rule abs_and_phases_row[OF assms])
  have e: "\<forall>k<length row.
                 amplitudes ?d ! k = cmod (row ! k) \<and> phases ?d ! k = np_angle (row ! k)
               \<and> 0 \<le> amplitudes ?d ! k
               \<and> - pi < phases ?d ! k \<and> phases ?d ! k \<le> pi
               \<and> row ! k = complex_of_real (amplitudes ?d ! k) * cis (phases ?d ! k)"
    using np_angle_bounds np_angle_polar by simp
  show ?thesis
    apply (rule exI[of _ ?d])
    apply (intro conjI)
       apply (rule r)
      apply simp
     apply simp
    apply (rule e)
    done
qed

theorem abs_and_phases_contract_witness:
  "\<exists>d. abs_and_phases \<lparr>samples = [[1, \<i>, - 1]], fs = 4, fb = 1\<rparr> = Inr d
     \<and> length (amplitudes d) = 3 \<and> length (phases d) = 3
     \<and> amplitudes d ! 2 = 1
     \<and> 0 \<le> amplitudes d ! 2
     \<and> - pi < phases d ! 2 \<and> phases d ! 2 \<le> pi"
proof -
  let ?S = "\<lparr>samples = [[1, \<i>, - 1]], fs = 4, fb = 1\<rparr>"
  have h: "samples ?S = [1, \<i>, - 1] # []" by simp
  have k: "(2::nat) < length [1, \<i>, - 1 :: complex]" by simp
  from abs_and_phases_contract[OF h] obtain d where
    d: "abs_and_phases ?S = Inr d" "length (amplitudes d) = length [1, \<i>, - 1 :: complex]"
       "length (phases d) = length [1, \<i>, - 1 :: complex]"
    and a: "\<forall>k<length [1, \<i>, - 1 :: complex].
                 amplitudes d ! k = cmod ([1, \<i>, - 1] ! k) \<and> phases d ! k = np_angle ([1, \<i>, - 1] ! k)
               \<and> 0 \<le> amplitudes d ! k
               \<and> - pi < phases d ! k \<and> phases d ! k \<le> pi
               \<and> [1, \<i>, - 1] ! k = complex_of_real (amplitudes d ! k) * cis (phases d ! k)"
    by blast
  from a k have "amplitudes d ! 2 = cmod ([1, \<i>, - 1] ! 2)" "0 \<le> amplitudes d ! 2"
    "- pi < phases d ! 2" "phases d ! 2 \<le> pi" by blast+
  then show ?thesis using d by (intro exI[of _ d]) simp
qed

section \<open>The minimum-phase transform and its inverse\<close>

lemma map_rows_ok:
  assumes "\<And>r. r \<in> set rs \<Longrightarrow> f r = Inr (g r)"
  shows "map_rows f rs = Inr (map g rs)"
  using assms by (induction rs) simp_all

lemma bcast_op_same_length:
  "length xs = length ys \<Longrightarrow> bcast_op f xs ys = Inr (map2 f xs ys)"
  by (simp add: bcast_op_def)

lemma np_max_ok: "xs \<noteq> [] \<Longrightarrow> np_max xs = Inr (Max (set xs))"
proof (cases xs)
  case Nil
  assume "xs \<noteq> []"
  with Nil show ?thesis by simp
next
  case (Cons a list)
  have "fold max list a = Max (set (a # list))" by (rule Max.set_eq_fold[symmetric])
  then show ?thesis unfolding Cons by (simp add: np_max_def)
qed

lemma length_carrier: "length (carrier b r N) = N"
  by (simp add: carrier_def ramp_def time_vector_def)

lemma carrier_nth:
  "n < N \<Longrightarrow> carrier b r N ! n = exp (\<i> * complex_of_real (2 * pi * (b / 2) * (real n / r)))"
  by (simp add: carrier_def ramp_def time_vector_def np_exp_j_def)

lemma carrier_nonzero: "e \<in> set (carrier b r N) \<Longrightarrow> e \<noteq> 0"
  by (auto simp: carrier_def np_exp_j_def)

lemma sinal_qam_fase_min_ok:
  assumes "samples s = s0 # srest"
    and "\<forall>r\<in>set (samples sfilt). length r = length s0"
    and "concat (samples sfilt) \<noteq> []"
  shows "sinal_qam_fase_min s sfilt =
     Inr (sfilt\<lparr>samples :=
             map (map (\<lambda>z. complex_of_real (peak sfilt) * np_exp_j (deg2rad 45) + z))
                 (map (\<lambda>r. map2 (*) r (carrier (fb sfilt) (fs s) (length s0))) (samples sfilt))\<rparr>,
          complex_of_real (peak sfilt) * np_exp_j (deg2rad 45))"
proof -
  have f: "first_mode s = Inr s0" using assms(1) by (simp add: first_mode_def)
  have m: "np_max (map cmod (concat (samples sfilt))) = Inr (peak sfilt)"
    unfolding peak_def using assms(3) by (intro np_max_ok) simp
  have rows: "map_rows (\<lambda>r. bcast_op (*) r (carrier (fb sfilt) (fs s) (length s0))) (samples sfilt)
        = Inr (map (\<lambda>r. map2 (*) r (carrier (fb sfilt) (fs s) (length s0))) (samples sfilt))"
    using assms(2) by (intro map_rows_ok bcast_op_same_length) (simp add: length_carrier)
  show ?thesis
    unfolding sinal_qam_fase_min_def f
    by (simp add: m rows[unfolded carrier_def] carrier_def Let_def)
qed

lemma np_exp_j_45: "np_exp_j (deg2rad 45) = cis (pi / 4)"
  by (simp add: np_exp_j_def deg2rad_def cis_conv_exp)

lemma peak_nonneg:
  assumes "concat (samples sfilt) \<noteq> []"
  shows "0 \<le> peak sfilt"
proof -
  have "peak sfilt \<in> set (map cmod (concat (samples sfilt)))"
    unfolding peak_def using assms by (intro Max_in) simp_all
  then show ?thesis by auto
qed

lemma cmod_offset: "0 \<le> p \<Longrightarrow> cmod (complex_of_real p * cis t) = p"
  by (simp add: norm_mult)

lemma angle_offset:
  assumes "0 < p"
  shows "np_angle (complex_of_real p * cis (pi / 4)) = pi / 4"
proof -
  have r: "Re (complex_of_real p * cis (pi / 4)) = p * (sqrt 2 / 2)"
    and i: "Im (complex_of_real p * cis (pi / 4)) = p * (sqrt 2 / 2)"
    by (simp_all add: cos_45 sin_45)
  have pos: "0 < p * (sqrt 2 / 2)" using assms by simp
  then have "p * (sqrt 2 / 2) \<noteq> 0" by (metis less_irrefl)
  then have q: "p * (sqrt 2 / 2) / (p * (sqrt 2 / 2)) = 1" by (rule divide_self)
  show ?thesis
    unfolding np_angle_def r i arctan2_def using pos by (simp only: if_True q arctan_one)
qed

lemma forward_sample:
  assumes "\<forall>r\<in>set (samples sfilt). length r = N" "m < length (samples sfilt)" "n < N"
  shows "map (map (\<lambda>z. A + z)) (map (\<lambda>r. map2 (*) r (carrier b rt N)) (samples sfilt)) ! m ! n
       = A + samples sfilt ! m ! n * exp (\<i> * complex_of_real (2 * pi * (b / 2) * (real n / rt)))"
    and "length (map (map (\<lambda>z. A + z)) (map (\<lambda>r. map2 (*) r (carrier b rt N)) (samples sfilt)) ! m) = N"
proof -
  have l: "length (samples sfilt ! m) = N" using assms(1,2) by simp
  show "map (map (\<lambda>z. A + z)) (map (\<lambda>r. map2 (*) r (carrier b rt N)) (samples sfilt)) ! m ! n
       = A + samples sfilt ! m ! n * exp (\<i> * complex_of_real (2 * pi * (b / 2) * (real n / rt)))"
    using assms(2,3) l by (simp add: length_carrier carrier_nth)
  show "length (map (map (\<lambda>z. A + z)) (map (\<lambda>r. map2 (*) r (carrier b rt N)) (samples sfilt)) ! m) = N"
    using assms(2) l by (simp add: length_carrier)
qed

text \<open>
  Claim C2 (forward transform). Given the signal \<open>s\<close> and a non-empty filtered signal
  \<open>sfilt\<close> of the same shape, \<open>sinal_qam_fase_min\<close> returns the pair \<open>(sfm, A)\<close>. The constant
  \<open>A\<close> is the peak modulus over all samples of \<open>sfilt\<close> times the unit complex number of
  angle 45 degrees, so its modulus is the peak and, unless the peak is zero, its angle is
  \<open>pi/4\<close>. The result keeps the attributes and the shape of \<open>sfilt\<close>, and sample \<open>n\<close> of mode
  \<open>m\<close> is \<open>A + sfilt[m][n] * exp(i * 2 * pi * (fb/2) * (n / fs))\<close>: a linear ramp in the
  sample index that starts at zero.
\<close>

theorem sinal_qam_fase_min_contract:
  assumes "samples s = s0 # srest"
    and "\<forall>r\<in>set (samples sfilt). length r = length s0"
    and "concat (samples sfilt) \<noteq> []"
    and "m < length (samples sfilt)"
    and "n < length s0"
  shows "\<exists>sfm A. sinal_qam_fase_min s sfilt = Inr (sfm, A)
           \<and> A = complex_of_real (Max (set (map cmod (concat (samples sfilt))))) * cis (pi / 4)
           \<and> cmod A = Max (set (map cmod (concat (samples sfilt))))
           \<and> (A \<noteq> 0 \<longrightarrow> np_angle A = pi / 4)
           \<and> fs sfm = fs sfilt \<and> fb sfm = fb sfilt
           \<and> length (samples sfm) = length (samples sfilt)
           \<and> length (samples sfm ! m) = length s0
           \<and> samples sfm ! m ! n
               = A + samples sfilt ! m ! n
                     * exp (\<i> * complex_of_real (2 * pi * (fb sfilt / 2) * (real n / fs s)))"
proof -
  let ?A = "complex_of_real (peak sfilt) * np_exp_j (deg2rad 45)"
  let ?R = "map (map (\<lambda>z. ?A + z))
              (map (\<lambda>r. map2 (*) r (carrier (fb sfilt) (fs s) (length s0))) (samples sfilt))"
  let ?sfm = "sfilt\<lparr>samples := ?R\<rparr>"
  have res: "sinal_qam_fase_min s sfilt = Inr (?sfm, ?A)"
    by (rule sinal_qam_fase_min_ok[OF assms(1,2,3)])
  have A: "?A = complex_of_real (Max (set (map cmod (concat (samples sfilt))))) * cis (pi / 4)"
    by (simp only: np_exp_j_45 peak_def)
  have p0: "0 \<le> peak sfilt" by (rule peak_nonneg[OF assms(3)])
  have cm: "cmod ?A = Max (set (map cmod (concat (samples sfilt))))"
    unfolding np_exp_j_45 cmod_offset[OF p0] by (simp only: peak_def)
  have an: "?A \<noteq> 0 \<longrightarrow> np_angle ?A = pi / 4"
  proof
    assume "?A \<noteq> 0"
    then have "peak sfilt \<noteq> 0" by auto
    with p0 have "0 < peak sfilt" by simp
    then show "np_angle ?A = pi / 4" unfolding np_exp_j_45 by (rule angle_offset)
  qed
  have meta: "fs ?sfm = fs sfilt" "fb ?sfm = fb sfilt" "length (samples ?sfm) = length (samples sfilt)"
    by simp_all
  have S: "samples ?sfm = ?R" by simp
  have len: "length (samples ?sfm ! m) = length s0"
    unfolding S by (rule forward_sample(2)[OF assms(2,4,5)])
  have el: "samples ?sfm ! m ! n
               = ?A + samples sfilt ! m ! n
                     * exp (\<i> * complex_of_real (2 * pi * (fb sfilt / 2) * (real n / fs s)))"
    unfolding S by (rule forward_sample(1)[OF assms(2,4,5)])
  show ?thesis
    apply (rule exI[of _ ?sfm], rule exI[of _ ?A])
    apply (intro conjI)
            apply (rule res)
           apply (rule A)
          apply (rule cm)
         apply (rule an)
        apply (rule meta(1))
       apply (rule meta(2))
      apply (rule meta(3))
     apply (rule len)
    apply (rule el)
    done
qed

theorem sinal_qam_fase_min_contract_witness:
  "\<exists>sfm A. sinal_qam_fase_min \<lparr>samples = [[2, 3]], fs = 4, fb = 2\<rparr>
                                  \<lparr>samples = [[1, \<i>]], fs = 4, fb = 2\<rparr> = Inr (sfm, A)
     \<and> cmod A = 1 \<and> np_angle A = pi / 4
     \<and> fs sfm = 4 \<and> fb sfm = 2
     \<and> length (samples sfm) = 1
     \<and> samples sfm ! 0 ! 1 = A + \<i> * exp (\<i> * complex_of_real (2 * pi * (2 / 2) * (1 / 4)))"
proof -
  let ?s = "\<lparr>samples = [[2, 3]], fs = 4, fb = 2\<rparr>"
  let ?f = "\<lparr>samples = [[1, \<i>]], fs = 4, fb = 2\<rparr>"
  have h1: "samples ?s = [2, 3] # []" by simp
  have h2: "\<forall>r\<in>set (samples ?f). length r = length [2, 3 :: complex]" by simp
  have h3: "concat (samples ?f) \<noteq> []" by simp
  have h4: "(0::nat) < length (samples ?f)" by simp
  have h5: "(1::nat) < length [2, 3 :: complex]" by simp
  have mx: "Max (set (map cmod (concat (samples ?f)))) = 1" by simp
  from sinal_qam_fase_min_contract[OF h1 h2 h3 h4 h5] obtain sfm A where
    r: "sinal_qam_fase_min ?s ?f = Inr (sfm, A)"
    and c: "cmod A = Max (set (map cmod (concat (samples ?f))))"
    and a: "A \<noteq> 0 \<longrightarrow> np_angle A = pi / 4"
    and m: "fs sfm = fs ?f" "fb sfm = fb ?f" "length (samples sfm) = length (samples ?f)"
    and e: "samples sfm ! 0 ! 1 = A + samples ?f ! 0 ! 1
              * exp (\<i> * complex_of_real (2 * pi * (fb ?f / 2) * (real (1::nat) / fs ?s)))"
    by blast
  have c1: "cmod A = 1" using c mx by simp
  then have "A \<noteq> 0" by auto
  with a have a1: "np_angle A = pi / 4" by simp
  show ?thesis
    apply (rule exI[of _ sfm], rule exI[of _ A])
    using r c1 a1 m e apply simp
    done
qed

lemma reverter_ok:
  assumes "samples sinal = r0 # rrest"
    and "\<forall>r\<in>set (samples sinal). length r = length r0"
  shows "reverter_sinal_fase_min sinal A =
     Inr (sinal\<lparr>samples :=
            map (\<lambda>r. map2 (/) r (carrier (fb sinal) (fs sinal) (length r0)))
                (map (map (\<lambda>z. z - A)) (samples sinal))\<rparr>)"
proof -
  have f: "first_mode sinal = Inr r0" using assms(1) by (simp add: first_mode_def)
  have rows: "map_rows (\<lambda>r. bcast_op (/) r (carrier (fb sinal) (fs sinal) (length r0)))
                (map (map (\<lambda>z. z - A)) (samples sinal))
        = Inr (map (\<lambda>r. map2 (/) r (carrier (fb sinal) (fs sinal) (length r0)))
                (map (map (\<lambda>z. z - A)) (samples sinal)))"
    using assms(2) by (intro map_rows_ok bcast_op_same_length) (auto simp: length_carrier)
  show ?thesis
    unfolding reverter_sinal_fase_min_def f
    by (simp add: rows[unfolded carrier_def] carrier_def Let_def)
qed

lemma row_round_trip:
  assumes "length (r::complex list) = length E" "\<forall>e\<in>set E. e \<noteq> 0"
  shows "map2 (/) (map (\<lambda>z. z - A) (map (\<lambda>z. A + z) (map2 (*) r E))) E = r"
proof (rule nth_equalityI)
  show "length (map2 (/) (map (\<lambda>z. z - A) (map (\<lambda>z. A + z) (map2 (*) r E))) E) = length r"
    using assms(1) by simp
next
  fix i
  assume "i < length (map2 (/) (map (\<lambda>z. z - A) (map (\<lambda>z. A + z) (map2 (*) r E))) E)"
  then have i: "i < length E" "i < length r" using assms(1) by simp_all
  then have "E ! i \<noteq> 0" using assms(2) by simp
  then have c: "(A + r ! i * E ! i - A) / E ! i = r ! i"
    by simp
  have "map2 (/) (map (\<lambda>z. z - A) (map (\<lambda>z. A + z) (map2 (*) r E))) E ! i
      = (A + r ! i * E ! i - A) / E ! i"
    using i by simp
  then show "map2 (/) (map (\<lambda>z. z - A) (map (\<lambda>z. A + z) (map2 (*) r E))) E ! i = r ! i"
    unfolding c .
qed

text \<open>
  Claim C1 (round trip). Under the same conditions, when moreover \<open>sfilt\<close> has the sample
  rate of \<open>s\<close> and that rate is not zero, \<open>reverter_sinal_fase_min\<close> applied to the pair that
  \<open>sinal_qam_fase_min\<close> returns gives back \<open>sfilt\<close> exactly: the inverse builds the same
  ramp from the attributes of \<open>sfm\<close> and divides \<open>sfm - A\<close> by a carrier that is never zero.
\<close>

theorem minimum_phase_round_trip:
  assumes "samples s = s0 # srest"
    and "\<forall>r\<in>set (samples sfilt). length r = length s0"
    and "concat (samples sfilt) \<noteq> []"
    and "fs s = fs sfilt"
    and "fs sfilt \<noteq> 0"
  shows "\<exists>sfm A. sinal_qam_fase_min s sfilt = Inr (sfm, A)
           \<and> reverter_sinal_fase_min sfm A = Inr sfilt"
proof -
  let ?A = "complex_of_real (peak sfilt) * np_exp_j (deg2rad 45)"
  let ?E = "carrier (fb sfilt) (fs s) (length s0)"
  let ?g = "\<lambda>r. map (\<lambda>z. ?A + z) (map2 (*) r ?E)"
  let ?R = "map (map (\<lambda>z. ?A + z)) (map (\<lambda>r. map2 (*) r ?E) (samples sfilt))"
  let ?sfm = "sfilt\<lparr>samples := ?R\<rparr>"
  have res: "sinal_qam_fase_min s sfilt = Inr (?sfm, ?A)"
    by (rule sinal_qam_fase_min_ok[OF assms(1,2,3)])
  obtain f0 frest where fl: "samples sfilt = f0 # frest"
    using assms(3) by (cases "samples sfilt") auto
  have R: "?R = map ?g (samples sfilt)" by simp
  have s1: "samples ?sfm = ?g f0 # map ?g frest" by (simp add: fl)
  have l0: "length (?g f0) = length s0" using assms(2) fl by (simp add: length_carrier)
  have s2: "\<forall>r\<in>set (samples ?sfm). length r = length (?g f0)"
    unfolding l0 using assms(2) by (auto simp: length_carrier)
  have undo: "map (\<lambda>r. map2 (/) r ?E) (map (map (\<lambda>z. z - ?A)) ?R) = samples sfilt"
  proof -
    have "\<And>r. r \<in> set (samples sfilt) \<Longrightarrow>
            map2 (/) (map (\<lambda>z. z - ?A) (map (\<lambda>z. ?A + z) (map2 (*) r ?E))) ?E = r"
      using assms(2) carrier_nonzero by (intro row_round_trip) (auto simp: length_carrier)
    then have "map (\<lambda>r. map2 (/) (map (\<lambda>z. z - ?A) (map (\<lambda>z. ?A + z) (map2 (*) r ?E))) ?E)
                 (samples sfilt) = map (\<lambda>r. r) (samples sfilt)"
      by (intro map_cong refl)
    then show ?thesis by (simp add: comp_def)
  qed
  have E: "carrier (fb ?sfm) (fs ?sfm) (length (?g f0)) = ?E"
    unfolding l0 using assms(4) by simp
  have "reverter_sinal_fase_min ?sfm ?A =
          Inr (?sfm\<lparr>samples := map (\<lambda>r. map2 (/) r (carrier (fb ?sfm) (fs ?sfm) (length (?g f0))))
                (map (map (\<lambda>z. z - ?A)) (samples ?sfm))\<rparr>)"
    by (rule reverter_ok[OF s1 s2])
  also have "\<dots> = Inr (?sfm\<lparr>samples := samples sfilt\<rparr>)"
    unfolding E using undo by simp
  also have "\<dots> = Inr sfilt" by simp
  finally have rev: "reverter_sinal_fase_min ?sfm ?A = Inr sfilt" .
  show ?thesis
    apply (rule exI[of _ ?sfm], rule exI[of _ ?A])
    apply (rule conjI)
     apply (rule res)
    apply (rule rev)
    done
qed

theorem minimum_phase_round_trip_witness:
  "\<exists>sfm A. sinal_qam_fase_min \<lparr>samples = [[2, 3]], fs = 4, fb = 2\<rparr>
                                  \<lparr>samples = [[1, \<i>]], fs = 4, fb = 2\<rparr> = Inr (sfm, A)
     \<and> reverter_sinal_fase_min sfm A = Inr \<lparr>samples = [[1, \<i>]], fs = 4, fb = 2\<rparr>"
proof -
  let ?s = "\<lparr>samples = [[2, 3]], fs = 4, fb = 2\<rparr>"
  let ?f = "\<lparr>samples = [[1, \<i>]], fs = 4, fb = 2\<rparr>"
  have h1: "samples ?s = [2, 3] # []" by simp
  have h2: "\<forall>r\<in>set (samples ?f). length r = length [2, 3 :: complex]" by simp
  have h3: "concat (samples ?f) \<noteq> []" by simp
  have h4: "fs ?s = fs ?f" by simp
  have h5: "fs ?f \<noteq> 0" by simp
  show ?thesis by (rule minimum_phase_round_trip[OF h1 h2 h3 h4 h5])
qed

end
